theory Spec2Isabelle
  imports
    Complex_Main
    "HOL-Library.Char_ord"
    "HOL-Library.List_Lexorder"
    "HOL-Library.Product_Lexorder"
begin

section \<open>Data model\<close>

text \<open>
  The tables of the store (app/models) as lists of rows, in the order in which the
  database returns them when a query has no ORDER BY. UUIDs are natural numbers.
  A Decimal of a NUMERIC(10, 2) column and a Python float are both rationals: a
  Decimal is held exactly, a float is the rational its binary64 value denotes, and
  every float operation rounds its exact result to binary64 (section Python
  floats). The widths of the columns (32-bit INTEGER, the ten digits of
  NUMERIC(10, 2), the lengths of strings) and the overflow of floats are not
  modelled. Columns that none of the modelled service methods reads or writes
  (timestamps other than created_at, media, SEO text, address snapshots) are left
  out.
\<close>

type_synonym uuid = nat

datatype error =
    MultipleResultsFound            \<comment> \<open>raised by scalar_one and scalar_one_or_none\<close>
  | NoResultFound                   \<comment> \<open>raised by scalar_one\<close>
  | AttributeError                  \<comment> \<open>attribute access on None\<close>
  | IntegrityError                  \<comment> \<open>a primary key, unique or check constraint fails\<close>
  | DBAPIError                      \<comment> \<open>an OFFSET or LIMIT that is negative or beyond int64\<close>
  | MissingGreenlet                 \<comment> \<open>lazy load of a relationship under AsyncSession\<close>
  | ZeroDivisionError
  | Cart_is_empty                   \<comment> \<open>ValueError("Cart is empty")\<close>
  | Product_not_available uuid      \<comment> \<open>ValueError("Product '<product_id>' is not available")\<close>
  | Insufficient_stock_for string   \<comment> \<open>ValueError("Insufficient stock for '<name>'")\<close>
  | Product_not_found               \<comment> \<open>ValueError("Product not found")\<close>
  | Product_is_not_available        \<comment> \<open>ValueError("Product is not available")\<close>
  | Insufficient_stock              \<comment> \<open>ValueError("Insufficient stock")\<close>
  | Order_cannot_be_cancelled       \<comment> \<open>ValueError("Order cannot be cancelled at this stage")\<close>
  | Category_has_products nat       \<comment> \<open>ValueError("Category has <n> products. ...")\<close>
  | Category_has_subcategories      \<comment> \<open>ValueError("Category has subcategories. ...")\<close>
  | Already_reviewed                \<comment> \<open>ValueError("You have already reviewed this product")\<close>

record product =
  p_id :: uuid
  p_name :: string
  p_description :: string
  p_price :: rat
  p_category_id :: "uuid option"
  p_category :: string
  p_subcategory :: "string option"
  p_stock_quantity :: int
  p_sku :: "string option"
  p_is_active :: bool
  p_is_featured :: bool
  p_created_at :: nat

record cart_item =
  ci_id :: uuid
  ci_user_id :: uuid
  ci_product_id :: uuid
  ci_quantity :: int

datatype order_status =
  PENDING | CONFIRMED | PROCESSING | SHIPPED | DELIVERED | CANCELLED | REFUNDED

datatype payment_status = PAY_PENDING | PAY_PAID | PAY_FAILED | PAY_REFUNDED

record order =
  o_id :: uuid
  o_user_id :: uuid
  o_order_number :: string
  o_total_amount :: rat
  o_subtotal :: rat
  o_shipping_cost :: rat
  o_tax_amount :: rat
  o_discount_amount :: rat
  o_status :: order_status
  o_payment_status :: payment_status
  o_customer_name :: string
  o_customer_email :: string
  o_customer_phone :: string
  o_payment_method :: string
  o_customer_notes :: "string option"
  o_created_at :: nat

text \<open>
  The columns of an order line that create_order collects in a dict (item_data) before
  the order has an id; an order_items row adds the order_id.
\<close>

record item_data =
  oi_product_id :: "uuid option"
  oi_product_name :: string
  oi_product_sku :: "string option"
  oi_quantity :: int
  oi_price_at_purchase :: rat
  oi_subtotal :: rat

record order_item = item_data +
  oi_order_id :: uuid

record category =
  c_id :: uuid
  c_name :: string
  c_slug :: string
  c_description :: "string option"
  c_parent_id :: "uuid option"
  c_display_order :: int
  c_is_active :: bool
  c_is_featured :: bool

record review =
  r_id :: uuid
  r_user_id :: uuid
  r_product_id :: uuid
  r_rating :: int
  r_title :: "string option"
  r_comment :: "string option"
  r_is_verified_purchase :: bool
  r_is_approved :: bool
  r_created_at :: nat

record user =
  u_id :: uuid
  u_email :: string
  u_full_name :: "string option"
  u_is_active :: bool
  u_is_admin :: bool
  u_created_at :: nat

record db =
  products :: "product list"
  cart_items :: "cart_item list"
  orders :: "order list"
  order_items :: "order_item list"
  categories :: "category list"
  reviews :: "review list"
  users :: "user list"

subsection \<open>Query results and sessions\<close>

text \<open>Result.scalar_one_or_none() and Result.scalar_one() on the rows of a query.\<close>

fun scalar_one_or_none :: "'a list \<Rightarrow> error + 'a option" where
  "scalar_one_or_none [] = Inr None"
| "scalar_one_or_none [x] = Inr (Some x)"
| "scalar_one_or_none (x # y # zs) = Inl MultipleResultsFound"

fun scalar_one :: "'a list \<Rightarrow> error + 'a" where
  "scalar_one [] = Inl NoResultFound"
| "scalar_one [x] = Inr x"
| "scalar_one (x # y # zs) = Inl MultipleResultsFound"

text \<open>
  Modelled from the spec: app/database.py, which provides the session of a request
  (get_db), is not among the sources. Following the spec (a failure at any step
  leaves the store exactly as it was before the call), a session that ends without
  commit discards the pending changes of its rows, and commit stores them.
  A service method is a function from the stored tables at the start of the call
  to its result and the stored tables after it.
\<close>

definition rollback :: "db \<Rightarrow> db \<Rightarrow> db" where
  "rollback stored pending = stored"

definition commit :: "db \<Rightarrow> db \<Rightarrow> db" where
  "commit stored pending = pending"

text \<open>
  The many-to-one relationship CartItem.product, loaded with the row (selectinload):
  the product whose primary key is the line's product_id, or None.
\<close>

definition ci_product :: "db \<Rightarrow> cart_item \<Rightarrow> product option" where
  "ci_product d item = find (\<lambda>p. p_id p = ci_product_id item) (products d)"

text \<open>Integrity constraints of the schema that the properties below rely on.\<close>

definition products_pk :: "db \<Rightarrow> bool" where
  "products_pk d = distinct (map p_id (products d))"

definition cart_items_pk :: "db \<Rightarrow> bool" where
  "cart_items_pk d = distinct (map ci_id (cart_items d))"

definition unique_user_product_cart :: "db \<Rightarrow> bool" where
  "unique_user_product_cart d =
     distinct (map (\<lambda>i. (ci_user_id i, ci_product_id i)) (cart_items d))"

definition cart_items_product_fk :: "db \<Rightarrow> bool" where
  "cart_items_product_fk d =
     list_all (\<lambda>i. ci_product_id i \<in> set (map p_id (products d))) (cart_items d)"

section \<open>Python floats\<close>

text \<open>
  A float is the rational that its binary64 value denotes. binary64 rounds a rational
  to the nearest binary64 value, ties to the even significand: the unit in the last
  place is 2 to the power of floor(log2 |x|) - 52, and not below 2 to the -1074 (the
  subnormal range). Overflow to infinity (beyond 2 to the 1024) is not modelled.
\<close>

text \<open>int.bit_length: the number of binary digits of a natural number.\<close>

fun bit_length :: "nat \<Rightarrow> nat" where
  "bit_length n = (if n = 0 then 0 else Suc (bit_length (n div 2)))"

declare bit_length.simps [simp del]

text \<open>floor(log2 x) for a positive rational x.\<close>

definition floor_log2 :: "rat \<Rightarrow> int" where
  "floor_log2 x =
     (if 1 \<le> x then int (bit_length (nat \<lfloor>x\<rfloor>)) - 1
      else - int (bit_length (nat (\<lceil>1 / x\<rceil> - 1))))"

definition pow2 :: "int \<Rightarrow> rat" where
  "pow2 e = (if 0 \<le> e then 2 ^ nat e else 1 / 2 ^ nat (- e))"

definition round_half_even :: "rat \<Rightarrow> int" where
  "round_half_even x =
     (let f = \<lfloor>x\<rfloor>; r = x - of_int f
      in if r < 1 / 2 then f else if 1 / 2 < r then f + 1 else if even f then f else f + 1)"

definition binary64 :: "rat \<Rightarrow> rat" where
  "binary64 x =
     (if x = 0 then 0
      else let ulp = pow2 (max (floor_log2 \<bar>x\<bar> - 52) (- 1074))
           in of_int (round_half_even (x / ulp)) * ulp)"

text \<open>
  float(d) of a Decimal d and the conversion of an int operand are correctly rounded;
  the sum, difference and product of two floats are the rounded exact results.
\<close>

definition float_add :: "rat \<Rightarrow> rat \<Rightarrow> rat" where
  "float_add a b = binary64 (a + b)"

definition float_sub :: "rat \<Rightarrow> rat \<Rightarrow> rat" where
  "float_sub a b = binary64 (a - b)"

definition float_mul :: "rat \<Rightarrow> rat \<Rightarrow> rat" where
  "float_mul a b = binary64 (a * b)"

text \<open>
  The builtin sum over floats, starting from the int 0. CPython adds the items from
  left to right; from version 3.12 on it carries the compensation term of Neumaier's
  summation beside the running sum and adds it at the end. The parameter compensated
  chooses between the two.
\<close>

fun neumaier :: "rat \<Rightarrow> rat \<Rightarrow> rat list \<Rightarrow> rat" where
  "neumaier f_result c [] = float_add f_result c"
| "neumaier f_result c (x # xs) =
     (let t = float_add f_result x;
          c' = (if \<bar>f_result\<bar> \<ge> \<bar>x\<bar>
                then float_add c (float_add (float_sub f_result t) x)
                else float_add c (float_add (float_sub x t) f_result))
      in neumaier t c' xs)"

definition sum_floats :: "bool \<Rightarrow> rat list \<Rightarrow> rat" where
  "sum_floats compensated xs =
     (case xs of
        [] \<Rightarrow> 0
      | x # rest \<Rightarrow>
          if compensated then neumaier (float_add 0 x) 0 rest
          else foldl float_add (float_add 0 x) rest)"

text \<open>
  The value that a NUMERIC(10, 2) column stores for a number: the nearest multiple of
  1/100, ties away from zero.
\<close>

definition NUMERIC_10_2 :: "rat \<Rightarrow> rat" where
  "NUMERIC_10_2 x = sgn x * of_int \<lfloor>\<bar>x\<bar> * 100 + 1 / 2\<rfloor> / 100"

section \<open>Cart service (app/services/cart_service.py, app/schemas/cart.py)\<close>

record cart_response =
  cr_items :: "cart_item list"
  cr_total_items :: int
  cr_subtotal :: rat

text \<open>CartItem.subtotal (app/models/cart.py): float(self.product.price) * self.quantity.\<close>

definition ci_subtotal :: "db \<Rightarrow> cart_item \<Rightarrow> rat" where
  "ci_subtotal d item =
     (case ci_product d item of
        Some product \<Rightarrow>
          float_mul (binary64 (p_price product)) (binary64 (of_int (ci_quantity item)))
      | None \<Rightarrow> 0)"

text \<open>CartResponse.from_items: total_items sums ints, subtotal sums floats.\<close>

definition from_items :: "bool \<Rightarrow> db \<Rightarrow> cart_item list \<Rightarrow> cart_response" where
  "from_items compensated d its =
     \<lparr>cr_items = its,
      cr_total_items = sum_list (map ci_quantity its),
      cr_subtotal = sum_floats compensated (map (ci_subtotal d) its)\<rparr>"

definition get_cart :: "bool \<Rightarrow> db \<Rightarrow> uuid \<Rightarrow> cart_response \<times> db" where
  "get_cart compensated d user_id =
     (let cart_items = filter (\<lambda>i. ci_user_id i = user_id) (cart_items d)
      in (from_items compensated d cart_items, d))"

text \<open>
  add_to_cart. The id of a new row (uuid4) is the parameter new_id. The quantity of
  an existing line is raised on the loaded row before the stock is compared, so the
  second raise leaves a pending change behind, which the session discards.
\<close>

definition add_to_cart ::
  "db \<Rightarrow> uuid \<Rightarrow> uuid \<Rightarrow> uuid \<Rightarrow> int \<Rightarrow> (error + cart_item) \<times> db" where
  "add_to_cart d new_id user_id product_id quantity =
     (case scalar_one_or_none (filter (\<lambda>p. p_id p = product_id) (products d)) of
        Inl e \<Rightarrow> (Inl e, d)
      | Inr None \<Rightarrow> (Inl Product_not_found, d)
      | Inr (Some product) \<Rightarrow>
          if \<not> p_is_active product then (Inl Product_is_not_available, d)
          else if p_stock_quantity product < quantity then (Inl Insufficient_stock, d)
          else
            (case scalar_one_or_none
                    (filter (\<lambda>i. ci_user_id i = user_id \<and> ci_product_id i = product_id)
                       (cart_items d)) of
               Inl e \<Rightarrow> (Inl e, d)
             | Inr (Some cart_item) \<Rightarrow>
                 let cart_item' = cart_item\<lparr>ci_quantity := ci_quantity cart_item + quantity\<rparr>;
                     pending = d\<lparr>cart_items :=
                       map (\<lambda>i. if ci_id i = ci_id cart_item then cart_item' else i)
                         (cart_items d)\<rparr>
                 in if ci_quantity cart_item' > p_stock_quantity product
                    then (Inl Insufficient_stock, rollback d pending)
                    else (Inr cart_item', commit d pending)
             | Inr None \<Rightarrow>
                 let cart_item = \<lparr>ci_id = new_id, ci_user_id = user_id,
                                   ci_product_id = product_id, ci_quantity = quantity\<rparr>;
                     pending = d\<lparr>cart_items := cart_items d @ [cart_item]\<rparr>
                 in if new_id \<in> set (map ci_id (cart_items d))
                    then (Inl IntegrityError, rollback d pending)
                    else (Inr cart_item, commit d pending)))"

text \<open>update_cart_item reads the stock through the relationship cart_item.product.\<close>

definition update_cart_item ::
  "db \<Rightarrow> uuid \<Rightarrow> uuid \<Rightarrow> int \<Rightarrow> (error + cart_item option) \<times> db" where
  "update_cart_item d item_id user_id quantity =
     (case scalar_one_or_none
             (filter (\<lambda>i. ci_id i = item_id \<and> ci_user_id i = user_id) (cart_items d)) of
        Inl e \<Rightarrow> (Inl e, d)
      | Inr None \<Rightarrow> (Inr None, d)
      | Inr (Some cart_item) \<Rightarrow>
          (case ci_product d cart_item of
             None \<Rightarrow> (Inl AttributeError, d)
           | Some product \<Rightarrow>
               if p_stock_quantity product < quantity then (Inl Insufficient_stock, d)
               else
                 let cart_item' = cart_item\<lparr>ci_quantity := quantity\<rparr>;
                     pending = d\<lparr>cart_items :=
                       map (\<lambda>i. if ci_id i = ci_id cart_item then cart_item' else i)
                         (cart_items d)\<rparr>
                 in (Inr (Some cart_item'), commit d pending)))"

section \<open>Order service (app/services/order_service.py)\<close>

text \<open>The fields of OrderCreate that an order row keeps as columns.\<close>

record order_create =
  customer_name :: string
  customer_email :: string
  customer_phone :: string
  payment_method :: string
  customer_notes :: "string option"

text \<open>
  The first loop of create_order: every cart line is checked against its product, in
  the order of the lines, and the subtotal and the item dicts are accumulated. The
  subtotal starts as the int 0 and grows by float additions; the subtotal of an item
  is the float float(product.price) * cart_item.quantity.
\<close>

fun validate_lines ::
  "db \<Rightarrow> cart_item list \<Rightarrow> rat \<Rightarrow> item_data list \<Rightarrow> error + rat \<times> item_data list" where
  "validate_lines d [] subtotal items = Inr (subtotal, items)"
| "validate_lines d (cart_item # rest) subtotal items =
     (case ci_product d cart_item of
        None \<Rightarrow> Inl (Product_not_available (ci_product_id cart_item))
      | Some product \<Rightarrow>
          if \<not> p_is_active product then Inl (Product_not_available (ci_product_id cart_item))
          else if p_stock_quantity product < ci_quantity cart_item
          then Inl (Insufficient_stock_for (p_name product))
          else
            let item_subtotal =
                  float_mul (binary64 (p_price product))
                    (binary64 (of_int (ci_quantity cart_item)))
            in validate_lines d rest (float_add subtotal item_subtotal)
                 (items @
                   [\<lparr>oi_product_id = Some (p_id product),
                     oi_product_name = p_name product,
                     oi_product_sku = p_sku product,
                     oi_quantity = ci_quantity cart_item,
                     oi_price_at_purchase = p_price product,
                     oi_subtotal = item_subtotal\<rparr>]))"

text \<open>OrderItem(order_id=order.id, **item_data).\<close>

definition OrderItem :: "uuid \<Rightarrow> item_data \<Rightarrow> order_item" where
  "OrderItem order_id item =
     \<lparr>oi_product_id = oi_product_id item,
      oi_product_name = oi_product_name item,
      oi_product_sku = oi_product_sku item,
      oi_quantity = oi_quantity item,
      oi_price_at_purchase = oi_price_at_purchase item,
      oi_subtotal = oi_subtotal item,
      oi_order_id = order_id\<rparr>"

text \<open>
  The second loop of create_order on the pending tables: the order line is added (its
  float subtotal goes into a NUMERIC(10, 2) column), the product is selected again
  by its id (scalar_one) and its stock is reduced.
\<close>

fun place_items :: "uuid \<Rightarrow> item_data list \<Rightarrow> db \<Rightarrow> error + db" where
  "place_items order_id [] d = Inr d"
| "place_items order_id (item # rest) d =
     (let order_item = OrderItem order_id item;
          d1 = d\<lparr>order_items := order_items d @
                 [order_item\<lparr>oi_subtotal := NUMERIC_10_2 (oi_subtotal order_item)\<rparr>]\<rparr>
      in case scalar_one (filter (\<lambda>p. Some (p_id p) = oi_product_id item) (products d1)) of
           Inl e \<Rightarrow> Inl e
         | Inr product \<Rightarrow>
             place_items order_id rest
               (d1\<lparr>products :=
                  map (\<lambda>p. if p_id p = p_id product
                     then product\<lparr>p_stock_quantity := p_stock_quantity product - oi_quantity item\<rparr>
                     else p)
                    (products d1)\<rparr>))"

text \<open>
  create_order. The parameters new_id, order_number and now stand for the uuid4 of
  the new order, the label built from the clock and the user id, and the creation
  time. The subtotal is a float, compared as such with 5000; shipping_cost is an
  int and total_amount their float sum; the row of the order stores them in
  NUMERIC(10, 2) columns. The flush of the new order fails when its id or its
  order_number (a unique column) is already taken.
\<close>

definition create_order ::
  "db \<Rightarrow> uuid \<Rightarrow> string \<Rightarrow> nat \<Rightarrow> uuid \<Rightarrow> order_create \<Rightarrow> (error + order) \<times> db" where
  "create_order d new_id order_number now user_id order_data =
     (let lines = filter (\<lambda>i. ci_user_id i = user_id) (cart_items d)
      in if lines = [] then (Inl Cart_is_empty, d)
         else
           (case validate_lines d lines 0 [] of
              Inl e \<Rightarrow> (Inl e, d)
            | Inr (subtotal, items) \<Rightarrow>
                let shipping_cost = (if subtotal \<ge> 5000 then 0 else 250 :: int);
                    total_amount = float_add subtotal (binary64 (of_int shipping_cost));
                    order = \<lparr>o_id = new_id, o_user_id = user_id,
                      o_order_number = order_number,
                      o_total_amount = NUMERIC_10_2 total_amount,
                      o_subtotal = NUMERIC_10_2 subtotal,
                      o_shipping_cost = NUMERIC_10_2 (of_int shipping_cost),
                      o_tax_amount = NUMERIC_10_2 0,
                      o_discount_amount = NUMERIC_10_2 0,
                      o_status = PENDING, o_payment_status = PAY_PENDING,
                      o_customer_name = customer_name order_data,
                      o_customer_email = customer_email order_data,
                      o_customer_phone = customer_phone order_data,
                      o_payment_method = payment_method order_data,
                      o_customer_notes = customer_notes order_data,
                      o_created_at = now\<rparr>;
                    d1 = d\<lparr>orders := orders d @ [order]\<rparr>
                in if new_id \<in> set (map o_id (orders d))
                      \<or> order_number \<in> set (map o_order_number (orders d))
                   then (Inl IntegrityError, rollback d d1)
                   else
                     (case place_items new_id items d1 of
                        Inl e \<Rightarrow> (Inl e, rollback d d1)
                      | Inr d2 \<Rightarrow>
                          let d3 = d2\<lparr>cart_items :=
                                filter (\<lambda>i. ci_user_id i \<noteq> user_id) (cart_items d2)\<rparr>;
                              stored = commit d d3
                          in (case scalar_one (filter (\<lambda>r. o_id r = new_id) (orders stored)) of
                                Inl e \<Rightarrow> (Inl e, stored)
                              | Inr order \<Rightarrow> (Inr order, stored)))))"

text \<open>The one-to-many relationship Order.items.\<close>

definition o_items :: "db \<Rightarrow> order \<Rightarrow> order_item list" where
  "o_items d order = filter (\<lambda>i. oi_order_id i = o_id order) (order_items d)"

text \<open>
  The loop of cancel_order on the pending tables: lines without a product_id and
  lines whose product no longer exists are passed over.
\<close>

fun restore_stock :: "order_item list \<Rightarrow> db \<Rightarrow> error + db" where
  "restore_stock [] d = Inr d"
| "restore_stock (item # rest) d =
     (case oi_product_id item of
        None \<Rightarrow> restore_stock rest d
      | Some product_id \<Rightarrow>
          (case scalar_one_or_none (filter (\<lambda>p. p_id p = product_id) (products d)) of
             Inl e \<Rightarrow> Inl e
           | Inr None \<Rightarrow> restore_stock rest d
           | Inr (Some product) \<Rightarrow>
               restore_stock rest
                 (d\<lparr>products :=
                    map (\<lambda>p. if p_id p = p_id product
                       then product\<lparr>p_stock_quantity := p_stock_quantity product + oi_quantity item\<rparr>
                       else p)
                      (products d)\<rparr>)))"

definition cancel_order :: "db \<Rightarrow> uuid \<Rightarrow> uuid \<Rightarrow> (error + order option) \<times> db" where
  "cancel_order d order_id user_id =
     (case scalar_one_or_none
             (filter (\<lambda>r. o_id r = order_id \<and> o_user_id r = user_id) (orders d)) of
        Inl e \<Rightarrow> (Inl e, d)
      | Inr None \<Rightarrow> (Inr None, d)
      | Inr (Some order) \<Rightarrow>
          if o_status order \<notin> set [PENDING, CONFIRMED]
          then (Inl Order_cannot_be_cancelled, d)
          else
            let order' = order\<lparr>o_status := CANCELLED\<rparr>;
                d1 = d\<lparr>orders := map (\<lambda>r. if o_id r = o_id order then order' else r) (orders d)\<rparr>
            in (case restore_stock (o_items d order) d1 of
                  Inl e \<Rightarrow> (Inl e, rollback d d1)
                | Inr d2 \<Rightarrow> (Inr (Some order'), commit d d2)))"

text \<open>
  The route PUT /orders/{order_id}/cancel (app/api/v1/order.py): None becomes a 404,
  a ValueError a 400; any other exception is not handled by the route.
\<close>

datatype http_error = HTTP_404_NOT_FOUND | HTTP_400_BAD_REQUEST | Unhandled error

fun is_ValueError :: "error \<Rightarrow> bool" where
  "is_ValueError MultipleResultsFound = False"
| "is_ValueError NoResultFound = False"
| "is_ValueError AttributeError = False"
| "is_ValueError IntegrityError = False"
| "is_ValueError DBAPIError = False"
| "is_ValueError MissingGreenlet = False"
| "is_ValueError ZeroDivisionError = False"
| "is_ValueError _ = True"

definition cancel_order_route :: "db \<Rightarrow> uuid \<Rightarrow> uuid \<Rightarrow> (http_error + order) \<times> db" where
  "cancel_order_route d order_id current_user_id =
     (case cancel_order d order_id current_user_id of
        (Inr None, d') \<Rightarrow> (Inl HTTP_404_NOT_FOUND, d')
      | (Inr (Some order), d') \<Rightarrow> (Inr order, d')
      | (Inl e, d') \<Rightarrow>
          (if is_ValueError e then Inl HTTP_400_BAD_REQUEST else Inl (Unhandled e), d'))"

text \<open>Primary key of the orders table.\<close>

definition orders_pk :: "db \<Rightarrow> bool" where
  "orders_pk d = distinct (map o_id (orders d))"

text \<open>
  The quantity that a list of order lines holds of one product; the lines of an
  order_items row list are read through the same columns.
\<close>

definition line_quantity :: "('a item_data_scheme) list \<Rightarrow> uuid \<Rightarrow> int" where
  "line_quantity its product_id =
     sum_list (map oi_quantity (filter (\<lambda>x. oi_product_id x = Some product_id) its))"

section \<open>Review service (app/services/review_service.py)\<close>

record review_create =
  rc_product_id :: uuid
  rc_rating :: int
  rc_title :: "string option"
  rc_comment :: "string option"

text \<open>
  The rows of select(OrderItem).join(Order).where(Order.user_id == user_id,
  OrderItem.product_id == product_id): one row for every pair of an order line and
  the order it belongs to.
\<close>

definition purchased :: "db \<Rightarrow> uuid \<Rightarrow> uuid \<Rightarrow> order_item list" where
  "purchased d user_id product_id =
     [x. x \<leftarrow> order_items d, r \<leftarrow> orders d, oi_order_id x = o_id r,
         o_user_id r = user_id, oi_product_id x = Some product_id]"

text \<open>
  create_review. The commit fails when the new id is taken, when the product does
  not exist (foreign key) or when the rating is outside 1..5 (check_rating_range).
\<close>

definition create_review ::
  "db \<Rightarrow> uuid \<Rightarrow> nat \<Rightarrow> uuid \<Rightarrow> review_create \<Rightarrow> (error + review) \<times> db" where
  "create_review d new_id now user_id review_data =
     (case scalar_one_or_none
             (filter (\<lambda>r. r_user_id r = user_id \<and> r_product_id r = rc_product_id review_data)
                (reviews d)) of
        Inl e \<Rightarrow> (Inl e, d)
      | Inr (Some existing) \<Rightarrow> (Inl Already_reviewed, d)
      | Inr None \<Rightarrow>
          (case scalar_one_or_none (purchased d user_id (rc_product_id review_data)) of
             Inl e \<Rightarrow> (Inl e, d)
           | Inr order_result \<Rightarrow>
               let is_verified_purchase = (order_result \<noteq> None);
                   review = \<lparr>r_id = new_id, r_user_id = user_id,
                     r_product_id = rc_product_id review_data,
                     r_rating = rc_rating review_data,
                     r_title = rc_title review_data,
                     r_comment = rc_comment review_data,
                     r_is_verified_purchase = is_verified_purchase,
                     r_is_approved = True,
                     r_created_at = now\<rparr>;
                   pending = d\<lparr>reviews := reviews d @ [review]\<rparr>
               in if new_id \<in> set (map r_id (reviews d))
                     \<or> rc_product_id review_data \<notin> set (map p_id (products d))
                     \<or> rc_rating review_data < 1 \<or> rc_rating review_data > 5
                  then (Inl IntegrityError, rollback d pending)
                  else (Inr review, commit d pending)))"

section \<open>Category service (app/services/category_service.py, app/models/category.py)\<close>

text \<open>
  The relationships of Category as loaded by selectinload: Category.products and the
  backref subcategories. Neither relationship declares an order_by, so the rows come
  in the order of the table.
\<close>

definition c_products :: "db \<Rightarrow> category \<Rightarrow> product list" where
  "c_products d category = filter (\<lambda>p. p_category_id p = Some (c_id category)) (products d)"

definition subcategories :: "db \<Rightarrow> category \<Rightarrow> category list" where
  "subcategories d category =
     filter (\<lambda>c. c_parent_id c = Some (c_id category)) (categories d)"

definition product_count :: "db \<Rightarrow> category \<Rightarrow> nat" where
  "product_count d category = length (c_products d category)"

definition has_subcategories :: "db \<Rightarrow> category \<Rightarrow> bool" where
  "has_subcategories d category = (length (subcategories d category) > 0)"

definition get_category :: "db \<Rightarrow> uuid \<Rightarrow> error + category option" where
  "get_category d category_id =
     scalar_one_or_none (filter (\<lambda>c. c_id c = category_id) (categories d))"

text \<open>
  What session.delete(category) stores at the commit, by the cascade rules of the
  relationships. Category.products is declared with cascade="all, delete-orphan":
  the products of the category are deleted with it, and with each product its cart
  lines and reviews (Product.cart_items and Product.reviews, cascade="all,
  delete-orphan"), while the order lines of the product (Product.order_items, no
  cascade) keep their row with product_id set to NULL. The backref subcategories has
  no delete cascade: the parent_id of each child is set to NULL before the row of
  the category is deleted.
\<close>

definition session_delete_category :: "db \<Rightarrow> category \<Rightarrow> db" where
  "session_delete_category d category =
     (let gone = map p_id (c_products d category)
      in d\<lparr>products := filter (\<lambda>p. p_category_id p \<noteq> Some (c_id category)) (products d),
           cart_items := filter (\<lambda>i. ci_product_id i \<notin> set gone) (cart_items d),
           reviews := filter (\<lambda>r. r_product_id r \<notin> set gone) (reviews d),
           order_items :=
             map (\<lambda>x. case oi_product_id x of
                         None \<Rightarrow> x
                       | Some k \<Rightarrow> if k \<in> set gone then x\<lparr>oi_product_id := None\<rparr> else x)
               (order_items d),
           categories :=
             map (\<lambda>c. if c_parent_id c = Some (c_id category)
                        then c\<lparr>c_parent_id := None\<rparr> else c)
               (filter (\<lambda>c. c_id c \<noteq> c_id category) (categories d))\<rparr>)"

definition delete_category :: "db \<Rightarrow> uuid \<Rightarrow> bool \<Rightarrow> (error + bool) \<times> db" where
  "delete_category d category_id force =
     (case get_category d category_id of
        Inl e \<Rightarrow> (Inl e, d)
      | Inr None \<Rightarrow> (Inr False, d)
      | Inr (Some category) \<Rightarrow>
          if \<not> force \<and> product_count d category > 0
          then (Inl (Category_has_products (product_count d category)), d)
          else if \<not> force \<and> has_subcategories d category
          then (Inl Category_has_subcategories, d)
          else (Inr True, commit d (session_delete_category d category)))"

text \<open>The schema CategoryTree, without the display fields icon, image and color.\<close>

datatype category_tree =
  CategoryTree (ct_id: uuid) (ct_name: string) (ct_slug: string) (ct_product_count: nat)
    (ct_subcategories: "category_tree list")

text \<open>
  _build_category_tree_node. The recursion of the source has no bound; here it is
  bounded by fuel, and None stands for a recursion deeper than the fuel. The children
  are the rows of category.subcategories that are active and in category_map,
  replaced by the row that category_map holds for their id.
\<close>

fun build_category_tree_node ::
  "nat \<Rightarrow> db \<Rightarrow> (uuid \<rightharpoonup> category) \<Rightarrow> category \<Rightarrow> category_tree option" where
  "build_category_tree_node 0 d category_map category = None"
| "build_category_tree_node (Suc fuel) d category_map category =
     map_option
       (CategoryTree (c_id category) (c_name category) (c_slug category)
          (product_count d category))
       (those
          (map (build_category_tree_node fuel d category_map)
             (List.map_filter
                (\<lambda>subcat. if category_map (c_id subcat) \<noteq> None \<and> c_is_active subcat
                   then category_map (c_id subcat) else None)
                (subcategories d category))))"

text \<open>
  get_category_tree: the active categories ordered by display_order, then name; the
  dict category_map (a later row replaces an earlier one with the same id); one node
  for every row without parent.
\<close>

definition get_category_tree :: "nat \<Rightarrow> db \<Rightarrow> category_tree list option" where
  "get_category_tree fuel d =
     (let all_categories =
            sort_key (\<lambda>c. (c_display_order c, c_name c)) (filter c_is_active (categories d));
          category_map = map_of (rev (map (\<lambda>c. (c_id c, c)) all_categories))
      in those
           (map (build_category_tree_node fuel d category_map)
              (filter (\<lambda>c. c_parent_id c = None) all_categories)))"

section \<open>Paginated listings\<close>










subsection \<open>ProductService.get_products\<close>




subsection \<open>CategoryService.get_categories\<close>



subsection \<open>OrderService.get_user_orders and get_all_orders\<close>







subsection \<open>ReviewService.get_product_reviews and get_user_reviews\<close>





subsection \<open>AdminService.get_users\<close>



subsection \<open>The page that the listing contract describes\<close>



section \<open>Example stores\<close>

definition prod_a :: product where
  "prod_a = \<lparr>p_id = 1, p_name = ''A'', p_description = ''pump'', p_price = 3000,
     p_category_id = Some 1, p_category = ''devices'', p_subcategory = None,
     p_stock_quantity = 5, p_sku = None, p_is_active = True, p_is_featured = False,
     p_created_at = 1\<rparr>"

definition prod_b :: product where
  "prod_b = \<lparr>p_id = 2, p_name = ''B'', p_description = ''mask'', p_price = 2500,
     p_category_id = None, p_category = ''devices'', p_subcategory = None,
     p_stock_quantity = 4, p_sku = None, p_is_active = True, p_is_featured = False,
     p_created_at = 2\<rparr>"

definition prod_c :: product where
  "prod_c = \<lparr>p_id = 3, p_name = ''C'', p_description = ''gauge'', p_price = 100,
     p_category_id = None, p_category = ''devices'', p_subcategory = None,
     p_stock_quantity = 6, p_sku = None, p_is_active = False, p_is_featured = False,
     p_created_at = 3\<rparr>"

definition prod_d :: product where
  "prod_d = \<lparr>p_id = 4, p_name = ''D'', p_description = ''cuff'', p_price = 1000,
     p_category_id = None, p_category = ''devices'', p_subcategory = None,
     p_stock_quantity = 2, p_sku = None, p_is_active = True, p_is_featured = False,
     p_created_at = 4\<rparr>"

definition line_a :: cart_item where
  "line_a = \<lparr>ci_id = 10, ci_user_id = 7, ci_product_id = 1, ci_quantity = 1\<rparr>"

definition line_b :: cart_item where
  "line_b = \<lparr>ci_id = 11, ci_user_id = 7, ci_product_id = 2, ci_quantity = 1\<rparr>"

definition line_c :: cart_item where
  "line_c = \<lparr>ci_id = 12, ci_user_id = 8, ci_product_id = 1, ci_quantity = 3\<rparr>"

definition line_d :: cart_item where
  "line_d = \<lparr>ci_id = 13, ci_user_id = 8, ci_product_id = 3, ci_quantity = 1\<rparr>"

definition line_e :: cart_item where
  "line_e = \<lparr>ci_id = 14, ci_user_id = 9, ci_product_id = 4, ci_quantity = 1\<rparr>"

definition checkout :: order_create where
  "checkout = \<lparr>customer_name = ''N'', customer_email = ''n@example.org'',
     customer_phone = ''0300'', payment_method = ''COD'', customer_notes = None\<rparr>"

definition cart_db :: db where
  "cart_db = \<lparr>products = [prod_a, prod_b, prod_c, prod_d],
     cart_items = [line_a, line_b, line_c, line_d, line_e],
     orders = [], order_items = [], categories = [], reviews = [], users = []\<rparr>"

definition ord_1 :: order where
  "ord_1 = \<lparr>o_id = 20, o_user_id = 7, o_order_number = ''MP-20240101000000-0007'',
     o_total_amount = 6250, o_subtotal = 6000, o_shipping_cost = 250, o_tax_amount = 0,
     o_discount_amount = 0, o_status = PENDING, o_payment_status = PAY_PENDING,
     o_customer_name = ''N'', o_customer_email = ''n@example.org'',
     o_customer_phone = ''0300'', o_payment_method = ''COD'', o_customer_notes = None,
     o_created_at = 1\<rparr>"

definition ord_2 :: order where
  "ord_2 = ord_1\<lparr>o_id := 21, o_order_number := ''MP-20240102000000-0007'',
     o_status := SHIPPED, o_created_at := 2\<rparr>"

definition item_1 :: order_item where
  "item_1 = \<lparr>oi_product_id = Some 1, oi_product_name = ''A'', oi_product_sku = None,
     oi_quantity = 2, oi_price_at_purchase = 3000, oi_subtotal = 6000, oi_order_id = 20\<rparr>"

definition item_2 :: order_item where
  "item_2 = \<lparr>oi_product_id = None, oi_product_name = ''Z'', oi_product_sku = None,
     oi_quantity = 1, oi_price_at_purchase = 10, oi_subtotal = 10, oi_order_id = 20\<rparr>"

definition item_3 :: order_item where
  "item_3 = \<lparr>oi_product_id = Some 1, oi_product_name = ''A'', oi_product_sku = None,
     oi_quantity = 1, oi_price_at_purchase = 3000, oi_subtotal = 3000, oi_order_id = 21\<rparr>"

definition order_db :: db where
  "order_db = \<lparr>products = [prod_a, prod_b], cart_items = [],
     orders = [ord_1, ord_2], order_items = [item_1, item_2, item_3],
     categories = [], reviews = [], users = []\<rparr>"

definition cat_root :: category where
  "cat_root = \<lparr>c_id = 1, c_name = ''Root'', c_slug = ''root'', c_description = None,
     c_parent_id = None, c_display_order = 0, c_is_active = True, c_is_featured = False\<rparr>"

definition cat_b :: category where
  "cat_b = \<lparr>c_id = 2, c_name = ''B'', c_slug = ''b'', c_description = None,
     c_parent_id = Some 1, c_display_order = 2, c_is_active = True, c_is_featured = False\<rparr>"

definition cat_a :: category where
  "cat_a = \<lparr>c_id = 3, c_name = ''A'', c_slug = ''a'', c_description = None,
     c_parent_id = Some 1, c_display_order = 1, c_is_active = True, c_is_featured = False\<rparr>"

definition cat_x :: category where
  "cat_x = \<lparr>c_id = 4, c_name = ''X'', c_slug = ''x'', c_description = None,
     c_parent_id = Some 1, c_display_order = 0, c_is_active = False, c_is_featured = False\<rparr>"

definition cat_db :: db where
  "cat_db = \<lparr>products = [prod_a, prod_b], cart_items = [line_a], orders = [],
     order_items = [], categories = [cat_root, cat_b, cat_a, cat_x], reviews = [],
     users = []\<rparr>"



definition prod_p :: product where
  "prod_p = \<lparr>p_id = 1, p_name = ''P'', p_description = ''stand'', p_price = 16566 / 10,
     p_category_id = None, p_category = ''devices'', p_subcategory = None,
     p_stock_quantity = 5, p_sku = None, p_is_active = True, p_is_featured = False,
     p_created_at = 1\<rparr>"

definition prod_q :: product where
  "prod_q = \<lparr>p_id = 2, p_name = ''Q'', p_description = ''tube'', p_price = 302 / 10,
     p_category_id = None, p_category = ''devices'', p_subcategory = None,
     p_stock_quantity = 5, p_sku = None, p_is_active = True, p_is_featured = False,
     p_created_at = 2\<rparr>"

definition prod_r :: product where
  "prod_r = \<lparr>p_id = 3, p_name = ''R'', p_description = ''swab'', p_price = 1 / 10,
     p_category_id = None, p_category = ''devices'', p_subcategory = None,
     p_stock_quantity = 5, p_sku = None, p_is_active = True, p_is_featured = False,
     p_created_at = 3\<rparr>"

definition line_p :: cart_item where
  "line_p = \<lparr>ci_id = 15, ci_user_id = 7, ci_product_id = 1, ci_quantity = 3\<rparr>"

definition line_q :: cart_item where
  "line_q = \<lparr>ci_id = 16, ci_user_id = 7, ci_product_id = 2, ci_quantity = 1\<rparr>"

definition line_r :: cart_item where
  "line_r = \<lparr>ci_id = 17, ci_user_id = 5, ci_product_id = 3, ci_quantity = 3\<rparr>"

definition float_db :: db where
  "float_db = \<lparr>products = [prod_p, prod_q, prod_r], cart_items = [line_p, line_q, line_r],
     orders = [], order_items = [], categories = [], reviews = [], users = []\<rparr>"

definition rev_1 :: review where
  "rev_1 = \<lparr>r_id = 40, r_user_id = 7, r_product_id = 2, r_rating = 4, r_title = None,
     r_comment = None, r_is_verified_purchase = True, r_is_approved = True,
     r_created_at = 3\<rparr>"

definition usr_7 :: user where
  "usr_7 = \<lparr>u_id = 7, u_email = ''n@example.org'', u_full_name = Some ''N'',
     u_is_active = True, u_is_admin = False, u_created_at = 1\<rparr>"


section \<open>Properties of Python floats\<close>

text \<open>
  Floor and ceiling of a quotient of numerals, by which the simplifier evaluates
  binary64 at a given number.
\<close>

lemma floor_rat_numeral [simp]:
  "\<lfloor>numeral a / numeral b :: rat\<rfloor> = numeral a div numeral b"
  by (metis floor_divide_of_int_eq of_int_numeral)

lemma ceiling_rat_numeral [simp]:
  "\<lceil>numeral a / numeral b :: rat\<rceil> = - (- numeral a div numeral b)"
  by (metis ceiling_def divide_minus_left floor_divide_of_int_eq of_int_neg_numeral
      of_int_numeral)

lemmas float_eval =
  binary64_def floor_log2_def pow2_def round_half_even_def bit_length.simps Let_def
  float_mul_def float_add_def float_sub_def NUMERIC_10_2_def

lemma bit_length_le: "n < 2 ^ k \<Longrightarrow> bit_length n \<le> k"
proof (induction k arbitrary: n)
  case 0
  then show ?case by (simp add: bit_length.simps)
next
  case (Suc k)
  then have "n div 2 < 2 ^ k" by simp
  from Suc.IH [OF this] show ?case
    by (subst bit_length.simps) simp
qed

lemma bit_length_pos: "0 < n \<Longrightarrow> 0 < bit_length n"
  by (subst bit_length.simps) simp

lemma round_half_even_of_int [simp]: "round_half_even (of_int z) = z"
  by (simp add: round_half_even_def)

lemma binary64_of_int:
  assumes "\<bar>n\<bar> < 2 ^ 53"
  shows "binary64 (of_int n) = of_int n"
proof (cases "n = 0")
  case True
  then show ?thesis by (simp add: binary64_def)
next
  case False
  define m where "m = nat \<bar>n\<bar>"
  define k where "k = bit_length m"
  from False assms have m: "0 < m" "m < 2 ^ 53"
    by (simp_all add: m_def nat_less_iff)
  from bit_length_pos [OF m(1)] bit_length_le [OF m(2)] have k: "1 \<le> k" "k \<le> 53"
    by (simp_all add: k_def)
  have abs: "\<bar>rat_of_int n\<bar> = of_int (int m)"
    by (simp add: m_def)
  have "floor_log2 \<bar>rat_of_int n\<bar> = int k - 1"
    unfolding abs using m(1) by (simp add: floor_log2_def k_def)
  then have e: "max (floor_log2 \<bar>rat_of_int n\<bar> - 52) (- 1074) = - int (53 - k)"
    using k by simp
  have "nat (53 - int k) = 53 - k" by arith
  then have p: "pow2 (- int (53 - k)) = 1 / 2 ^ (53 - k)"
    by (simp add: pow2_def)
  have q: "rat_of_int n / (1 / 2 ^ (53 - k)) = of_int (n * 2 ^ (53 - k))"
    by simp
  show ?thesis
    using False unfolding binary64_def e p Let_def q round_half_even_of_int
    by simp
qed

lemma float_add_int:
  "\<bar>a + b\<bar> < 2 ^ 53 \<Longrightarrow> float_add (of_int a) (of_int b) = of_int (a + b)"
  using binary64_of_int [of "a + b"] by (simp add: float_add_def)

lemma float_sub_int:
  "\<bar>a - b\<bar> < 2 ^ 53 \<Longrightarrow> float_sub (of_int a) (of_int b) = of_int (a - b)"
  using binary64_of_int [of "a - b"] by (simp add: float_sub_def)

lemma float_mul_binary64_int:
  assumes "\<bar>a * q\<bar> < 2 ^ 53"
  shows "float_mul (binary64 (of_int a)) (binary64 (of_int q)) = of_int (a * q)"
proof (cases "a = 0 \<or> q = 0")
  case True
  have b0: "binary64 0 = 0" by (simp add: binary64_def)
  from True have "float_mul (binary64 (of_int a)) (binary64 (of_int q)) = 0" "a * q = 0"
    by (auto simp: float_mul_def b0)
  then show ?thesis by simp
next
  case False
  then have "1 \<le> \<bar>a\<bar>" "1 \<le> \<bar>q\<bar>" by auto
  then have le: "\<bar>a\<bar> \<le> \<bar>a\<bar> * \<bar>q\<bar>" "\<bar>q\<bar> \<le> \<bar>a\<bar> * \<bar>q\<bar>"
    by (simp_all add: mult_le_cancel_left1 mult_le_cancel_right1)
  from assms have lt: "\<bar>a\<bar> * \<bar>q\<bar> < 2 ^ 53"
    by (simp only: abs_mult)
  have "\<bar>a\<bar> < 2 ^ 53" "\<bar>q\<bar> < 2 ^ 53"
    by (rule le_less_trans [OF le(1) lt], rule le_less_trans [OF le(2) lt])
  then have "binary64 (of_int a) = of_int a" "binary64 (of_int q) = of_int q"
    by (simp_all add: binary64_of_int)
  then show ?thesis
    using binary64_of_int [OF assms] by (simp add: float_mul_def)
qed

lemma foldl_float_add_int:
  "\<bar>a\<bar> + sum_list (map abs zs) < 2 ^ 53 \<Longrightarrow>
   foldl float_add (of_int a) (map of_int zs) = of_int (a + sum_list zs)"
proof (induction zs arbitrary: a)
  case Nil
  then show ?case by simp
next
  case (Cons z zs)
  have b: "\<bar>a + z\<bar> \<le> \<bar>a\<bar> + \<bar>z\<bar>" by simp
  have nn: "0 \<le> sum_list (map abs zs)" by (induction zs) auto
  from Cons.prems b nn have s: "\<bar>a + z\<bar> < 2 ^ 53" by simp
  from Cons.prems b have "\<bar>a + z\<bar> + sum_list (map abs zs) < 2 ^ 53" by simp
  from Cons.IH [OF this] show ?case
    by (simp add: float_add_int [OF s] add.assoc)
qed

lemma neumaier_int:
  "\<bar>a\<bar> + sum_list (map abs zs) < 2 ^ 53 \<Longrightarrow>
   neumaier (of_int a) 0 (map of_int zs) = of_int (a + sum_list zs)"
proof (induction zs arbitrary: a)
  case Nil
  then have "\<bar>a + 0\<bar> < 2 ^ 53" by simp
  from float_add_int [OF this] show ?case by simp
next
  case (Cons z zs)
  have b: "\<bar>a + z\<bar> \<le> \<bar>a\<bar> + \<bar>z\<bar>" by simp
  have nn: "0 \<le> sum_list (map abs zs)" by (induction zs) auto
  from Cons.prems b nn have s: "\<bar>a + z\<bar> < 2 ^ 53" by simp
  from Cons.prems nn have az: "\<bar>a\<bar> < 2 ^ 53" "\<bar>z\<bar> < 2 ^ 53" by simp_all
  have t: "float_add (of_int a) (of_int z) = of_int (a + z)"
    by (rule float_add_int [OF s])
  have z0: "float_add 0 0 = 0" by (simp add: float_add_def binary64_def)
  have c1: "float_add (float_sub (of_int a) (of_int (a + z))) (of_int z) = 0"
  proof -
    have "\<bar>a - (a + z)\<bar> < 2 ^ 53" using az by simp
    from float_sub_int [OF this] have "float_sub (of_int a) (of_int (a + z)) = of_int (- z)"
      by simp
    moreover have "float_add (of_int (- z)) (of_int z) = of_int (- z + z)"
      by (rule float_add_int) simp
    ultimately show ?thesis by simp
  qed
  have c2: "float_add (float_sub (of_int z) (of_int (a + z))) (of_int a) = 0"
  proof -
    have "\<bar>z - (a + z)\<bar> < 2 ^ 53" using az by simp
    from float_sub_int [OF this] have "float_sub (of_int z) (of_int (a + z)) = of_int (- a)"
      by simp
    moreover have "float_add (of_int (- a)) (of_int a) = of_int (- a + a)"
      by (rule float_add_int) simp
    ultimately show ?thesis by simp
  qed
  from Cons.prems b have "\<bar>a + z\<bar> + sum_list (map abs zs) < 2 ^ 53" by simp
  from Cons.IH [OF this]
  have r: "neumaier (of_int (a + z)) 0 (map of_int zs) = of_int (a + z + sum_list zs)" .
  have "neumaier (of_int a) 0 (map of_int (z # zs)) = neumaier (of_int (a + z)) 0 (map of_int zs)"
    by (simp only: list.map neumaier.simps Let_def t c1 c2 z0 if_cancel)
  with r show ?case
    by (simp only: sum_list.Cons add.assoc)
qed

lemma sum_floats_int:
  assumes "sum_list (map abs zs) < 2 ^ 53"
  shows "sum_floats compensated (map of_int zs) = of_int (sum_list zs)"
proof (cases zs)
  case Nil
  then show ?thesis by (simp add: sum_floats_def)
next
  case (Cons z rest)
  have nn: "0 \<le> sum_list (map abs rest)" by (induction rest) auto
  from assms Cons nn have "\<bar>0 + z\<bar> < 2 ^ 53" by simp
  from float_add_int [OF this] have z: "float_add 0 (of_int z) = of_int z" by simp
  from assms Cons have "\<bar>z\<bar> + sum_list (map abs rest) < 2 ^ 53" by simp
  from foldl_float_add_int [OF this] neumaier_int [OF this] Cons z show ?thesis
    by (simp add: sum_floats_def)
qed

lemma abs_le_sum_list_abs:
  "(z :: int) \<in> set zs \<Longrightarrow> \<bar>z\<bar> \<le> sum_list (map abs zs)"
proof (induction zs)
  case Nil
  then show ?case by simp
next
  case (Cons a zs)
  have nn: "0 \<le> sum_list (map abs zs)" by (induction zs) auto
  from Cons nn show ?case by auto
qed

lemma of_int_sum_list_map:
  "(of_int (sum_list (map h xs)) :: rat) = sum_list (map (\<lambda>x. of_int (h x)) xs)"
  by (induction xs) auto

lemma sum_floats_lines:
  assumes ints: "\<forall>i \<in> set xs. f i \<in> \<int>"
    and g: "\<forall>i \<in> set xs. g i = float_mul (binary64 (f i)) (binary64 (of_int (q i)))"
    and bound: "(\<Sum>i\<leftarrow>xs. \<bar>of_int (q i) * f i\<bar>) < 2 ^ 53"
  shows "sum_floats compensated (map g xs) = (\<Sum>i\<leftarrow>xs. of_int (q i) * f i)"
proof -
  define z where "z = (\<lambda>i. \<lfloor>f i\<rfloor> * q i)"
  have fz: "f i = of_int \<lfloor>f i\<rfloor>" if "i \<in> set xs" for i
    using ints that by (auto elim: Ints_cases)
  have pz: "of_int (q i) * f i = of_int (z i)" if "i \<in> set xs" for i
    using fz [OF that] by (simp add: z_def mult.commute)
  have "(\<Sum>i\<leftarrow>xs. \<bar>of_int (q i) * f i\<bar>) = (\<Sum>i\<leftarrow>xs. of_int \<bar>z i\<bar>)"
    by (rule arg_cong [where f = sum_list], rule map_cong [OF refl]) (simp add: pz)
  also have "\<dots> = of_int (sum_list (map abs (map z xs)))"
    by (simp add: of_int_sum_list_map comp_def)
  finally have "(of_int (sum_list (map abs (map z xs))) :: rat) < of_int (2 ^ 53)"
    using bound by simp
  then have b: "sum_list (map abs (map z xs)) < 2 ^ 53"
    by (simp only: of_int_less_iff)
  have gz: "g i = of_int (z i)" if "i \<in> set xs" for i
  proof -
    from that have "\<bar>z i\<bar> \<le> sum_list (map abs (map z xs))"
      by (intro abs_le_sum_list_abs) simp
    with b have "\<bar>\<lfloor>f i\<rfloor> * q i\<bar> < 2 ^ 53" by (simp add: z_def)
    from float_mul_binary64_int [OF this] g that fz [OF that] show ?thesis
      by (simp add: z_def)
  qed
  have mm: "map g xs = map of_int (map z xs)"
    using gz by simp
  have "sum_floats compensated (map g xs) = of_int (sum_list (map z xs))"
    by (simp only: mm sum_floats_int [OF b])
  also have "\<dots> = (\<Sum>i\<leftarrow>xs. of_int (z i))"
    by (simp add: of_int_sum_list_map)
  also have "\<dots> = (\<Sum>i\<leftarrow>xs. of_int (q i) * f i)"
    by (rule arg_cong [where f = sum_list], rule map_cong [OF refl]) (simp add: pz)
  finally show ?thesis .
qed

section \<open>Properties of the cart service\<close>

lemmas example_rows =
  prod_a_def prod_b_def prod_c_def prod_d_def
  line_a_def line_b_def line_c_def line_d_def line_e_def
  ord_1_def ord_2_def item_1_def item_2_def item_3_def
  cat_root_def cat_b_def cat_a_def cat_x_def
  prod_p_def prod_q_def prod_r_def line_p_def line_q_def line_r_def
  rev_1_def usr_7_def

lemma find_Some_of_mem:
  "x \<in> set (map f xs) \<Longrightarrow> \<exists>y. find (\<lambda>p. f p = x) xs = Some y \<and> f y = x"
  by (induction xs) auto

text \<open>
  C8, as the code has it. get_cart stores nothing and returns, for every user, the
  user's cart lines, the sum of their quantities as total_items, and as subtotal the
  float sum of the float amounts float(price) * quantity of the lines, every product
  and every partial sum rounded to binary64. The subtotal is the exact sum of
  quantity times price when the prices are whole numbers and the amounts of the
  lines add up to less than 2 to the 53. A user without cart lines gets an empty
  list and zeros. Every cart line references an existing product (the foreign key
  of cart_items.product_id).
\<close>

theorem get_cart_totals:
  assumes "cart_items_product_fk d"
  shows "snd (get_cart compensated d user_id) = d
    \<and> cr_items (fst (get_cart compensated d user_id))
        = filter (\<lambda>i. ci_user_id i = user_id) (cart_items d)
    \<and> cr_total_items (fst (get_cart compensated d user_id))
        = (\<Sum>i \<leftarrow> filter (\<lambda>i. ci_user_id i = user_id) (cart_items d). ci_quantity i)
    \<and> cr_subtotal (fst (get_cart compensated d user_id))
        = sum_floats compensated
            (map (\<lambda>i. float_mul (binary64 (p_price (the (ci_product d i))))
                        (binary64 (of_int (ci_quantity i))))
               (filter (\<lambda>i. ci_user_id i = user_id) (cart_items d)))
    \<and> ((\<forall>i \<in> set (filter (\<lambda>i. ci_user_id i = user_id) (cart_items d)).
            p_price (the (ci_product d i)) \<in> \<int>)
        \<and> (\<Sum>i \<leftarrow> filter (\<lambda>i. ci_user_id i = user_id) (cart_items d).
             \<bar>of_int (ci_quantity i) * p_price (the (ci_product d i))\<bar>) < 2 ^ 53 \<longrightarrow>
         cr_subtotal (fst (get_cart compensated d user_id))
           = (\<Sum>i \<leftarrow> filter (\<lambda>i. ci_user_id i = user_id) (cart_items d).
                of_int (ci_quantity i) * p_price (the (ci_product d i))))
    \<and> (filter (\<lambda>i. ci_user_id i = user_id) (cart_items d) = [] \<longrightarrow>
         fst (get_cart compensated d user_id)
           = \<lparr>cr_items = [], cr_total_items = 0, cr_subtotal = 0\<rparr>)"
proof -
  let ?its = "filter (\<lambda>i. ci_user_id i = user_id) (cart_items d)"
  let ?amount = "\<lambda>i. float_mul (binary64 (p_price (the (ci_product d i))))
                        (binary64 (of_int (ci_quantity i)))"
  have line: "ci_subtotal d i = ?amount i" if "i \<in> set ?its" for i
  proof -
    from that assms have "ci_product_id i \<in> set (map p_id (products d))"
      by (auto simp: cart_items_product_fk_def list_all_iff)
    from find_Some_of_mem [OF this] obtain y where "ci_product d i = Some y"
      by (auto simp: ci_product_def)
    then show ?thesis by (simp add: ci_subtotal_def)
  qed
  have m: "map (ci_subtotal d) ?its = map ?amount ?its"
    by (rule map_cong [OF refl]) (rule line)
  have s: "cr_subtotal (fst (get_cart compensated d user_id))
      = sum_floats compensated (map ?amount ?its)"
    by (simp add: get_cart_def from_items_def Let_def m)
  have exact: "sum_floats compensated (map ?amount ?its)
      = (\<Sum>i \<leftarrow> ?its. of_int (ci_quantity i) * p_price (the (ci_product d i)))"
    if "\<forall>i \<in> set ?its. p_price (the (ci_product d i)) \<in> \<int>"
      "(\<Sum>i \<leftarrow> ?its. \<bar>of_int (ci_quantity i) * p_price (the (ci_product d i))\<bar>) < 2 ^ 53"
    by (rule sum_floats_lines [OF that(1) _ that(2)]) simp
  have rest: "snd (get_cart compensated d user_id) = d"
    "cr_items (fst (get_cart compensated d user_id)) = ?its"
    "cr_total_items (fst (get_cart compensated d user_id)) = (\<Sum>i \<leftarrow> ?its. ci_quantity i)"
    "?its = [] \<longrightarrow> fst (get_cart compensated d user_id)
           = \<lparr>cr_items = [], cr_total_items = 0, cr_subtotal = 0\<rparr>"
    by (simp_all add: get_cart_def from_items_def Let_def sum_floats_def)
  from rest s exact show ?thesis
    by (simp only:) blast
qed

theorem get_cart_totals_witness:
  "cart_items_product_fk cart_db
   \<and> snd (get_cart True cart_db 7) = cart_db
   \<and> cr_total_items (fst (get_cart True cart_db 7)) = 2
   \<and> cr_subtotal (fst (get_cart True cart_db 7)) = 5500
   \<and> cr_subtotal (fst (get_cart False cart_db 7)) = 5500
   \<and> fst (get_cart True cart_db 6) = \<lparr>cr_items = [], cr_total_items = 0, cr_subtotal = 0\<rparr>"
proof -
  have fk: "cart_items_product_fk cart_db"
    by (simp add: cart_items_product_fk_def cart_db_def example_rows)
  have l7: "filter (\<lambda>i. ci_user_id i = 7) (cart_items cart_db) = [line_a, line_b]"
    by (simp add: cart_db_def example_rows)
  have e: "filter (\<lambda>i. ci_user_id i = 6) (cart_items cart_db) = []"
    by (simp add: cart_db_def example_rows)
  have p: "p_price (the (ci_product cart_db line_a)) = 3000"
    "p_price (the (ci_product cart_db line_b)) = 2500"
    "ci_quantity line_a = 1" "ci_quantity line_b = 1"
    by (simp_all add: cart_db_def example_rows ci_product_def)
  from get_cart_totals [OF fk, of True 7] get_cart_totals [OF fk, of False 7]
    get_cart_totals [OF fk, of True 6] fk
  show ?thesis
    unfolding l7 e by (simp add: p)
qed

text \<open>
  C8, as stated, makes the subtotal the sum of quantity times price. For the cart
  of user 5 in float_db, three pieces at 0.10, the sum is 0.30 and get_cart returns
  the float 0.30000000000000004, with either summation of the floats.
\<close>

theorem get_cart_subtotal_rounded:
  "cr_subtotal (fst (get_cart False float_db 5)) = 1351079888211149 / 4503599627370496
   \<and> cr_subtotal (fst (get_cart True float_db 5)) = 1351079888211149 / 4503599627370496
   \<and> (\<Sum>i \<leftarrow> filter (\<lambda>i. ci_user_id i = 5) (cart_items float_db).
        of_int (ci_quantity i) * p_price (the (ci_product float_db i))) = 3 / 10"
proof -
  have l: "filter (\<lambda>i. ci_user_id i = 5) (cart_items float_db) = [line_r]"
    by (simp add: float_db_def example_rows)
  have p: "ci_product float_db line_r = Some prod_r"
    by (simp add: float_db_def example_rows ci_product_def)
  have v: "p_price prod_r = 1 / 10" "ci_quantity line_r = 3"
    by (simp_all add: example_rows)
  have b1: "binary64 (1 / 10) = 3602879701896397 / 36028797018963968"
    by (simp add: float_eval)
  have b3: "binary64 3 = 3"
    using binary64_of_int [of 3] by simp
  have m: "float_mul (3602879701896397 / 36028797018963968) 3
      = 1351079888211149 / 4503599627370496"
    by (simp add: float_eval)
  have a: "float_add 0 (1351079888211149 / 4503599627370496)
      = 1351079888211149 / 4503599627370496"
    by (simp add: float_eval)
  have a0: "float_add (1351079888211149 / 4503599627370496) 0
      = 1351079888211149 / 4503599627370496"
    using a by (simp add: float_add_def)
  have s: "ci_subtotal float_db line_r = 1351079888211149 / 4503599627370496"
    by (simp add: ci_subtotal_def p v b1 b3 m)
  show ?thesis
    by (simp add: get_cart_def from_items_def Let_def l s sum_floats_def a a0 p v)
qed

subsection \<open>Rows selected by a key\<close>

lemma filter_key_unique:
  "distinct (map f xs) \<Longrightarrow> x \<in> set xs \<Longrightarrow> filter (\<lambda>y. f y = f x) xs = [x]"
proof (induction xs)
  case Nil
  then show ?case by simp
next
  case (Cons a xs)
  show ?case
  proof (cases "a = x")
    case True
    with Cons.prems have "\<forall>y \<in> set xs. f y \<noteq> f x" by (auto simp: image_iff)
    then have "filter (\<lambda>y. f y = f x) xs = []" by (simp add: filter_empty_conv)
    with True show ?thesis by simp
  next
    case False
    with Cons.prems have "x \<in> set xs" "f a \<noteq> f x" by (auto simp: image_iff)
    with Cons show ?thesis by simp
  qed
qed

lemma key_eq_imp_eq:
  "distinct (map f xs) \<Longrightarrow> x \<in> set xs \<Longrightarrow> y \<in> set xs \<Longrightarrow> f y = f x \<Longrightarrow> y = x"
  by (meson distinct_map inj_onD)

lemma map_replace_filter:
  assumes "distinct (map f xs)" "x \<in> set xs" "P x" "P x'"
  shows "filter P (map (\<lambda>i. if f i = f x then x' else i) xs)
         = map (\<lambda>i. if f i = f x then x' else i) (filter P xs)"
proof -
  have "P (if f i = f x then x' else i) = P i" if "i \<in> set xs" for i
    using that assms key_eq_imp_eq [of f xs x i] by auto
  then show ?thesis
    by (induction xs) (auto simp: filter_map comp_def)
qed

lemma product_query_one:
  assumes "products_pk d" "product \<in> set (products d)"
  shows "filter (\<lambda>p. p_id p = p_id product) (products d) = [product]"
  using filter_key_unique [of p_id "products d" product] assms
  by (simp add: products_pk_def)

lemma cart_line_query_one:
  assumes "unique_user_product_cart d" "line \<in> set (cart_items d)"
  shows "filter (\<lambda>i. ci_user_id i = ci_user_id line \<and> ci_product_id i = ci_product_id line)
           (cart_items d) = [line]"
  using filter_key_unique [of "\<lambda>i. (ci_user_id i, ci_product_id i)" "cart_items d" line] assms
  by (simp add: unique_user_product_cart_def)

lemma cart_item_query_one:
  assumes "cart_items_pk d" "line \<in> set (cart_items d)"
  shows "filter (\<lambda>i. ci_id i = ci_id line \<and> ci_user_id i = ci_user_id line) (cart_items d)
         = [line]"
proof -
  have "filter (\<lambda>i. ci_id i = ci_id line \<and> ci_user_id i = ci_user_id line) (cart_items d)
        = filter (\<lambda>i. ci_id i = ci_id line) (cart_items d)"
    using assms key_eq_imp_eq [of ci_id "cart_items d" line]
    by (intro filter_cong) (auto simp: cart_items_pk_def)
  then show ?thesis
    using filter_key_unique [of ci_id "cart_items d" line] assms
    by (simp add: cart_items_pk_def)
qed

text \<open>
  C5, as the code has it. When a cart line for (user, product) exists with quantity
  q and the product is active, add_to_cart fails with "Insufficient stock" if q + quantity exceeds the
  stock of the product, and the stored tables, the line's quantity among them, are
  as before the call; if q + quantity is within the stock, the line's quantity
  becomes q + quantity and no other row changes.
\<close>

theorem add_to_cart_existing_line:
  assumes pk: "products_pk d" and ipk: "cart_items_pk d"
    and uq: "unique_user_product_cart d"
    and prod: "product \<in> set (products d)" "p_is_active product"
    and line: "line \<in> set (cart_items d)" "ci_product_id line = p_id product"
    and q: "1 \<le> ci_quantity line"
  shows "(ci_quantity line + quantity > p_stock_quantity product \<longrightarrow>
            add_to_cart d new_id (ci_user_id line) (p_id product) quantity
              = (Inl Insufficient_stock, d))
       \<and> (ci_quantity line + quantity \<le> p_stock_quantity product \<longrightarrow>
            add_to_cart d new_id (ci_user_id line) (p_id product) quantity
              = (Inr (line\<lparr>ci_quantity := ci_quantity line + quantity\<rparr>),
                 d\<lparr>cart_items := map (\<lambda>i. if i = line
                        then line\<lparr>ci_quantity := ci_quantity line + quantity\<rparr> else i)
                      (cart_items d)\<rparr>))"
proof -
  have p1: "filter (\<lambda>p. p_id p = p_id product) (products d) = [product]"
    by (rule product_query_one [OF pk prod(1)])
  have l1: "filter (\<lambda>i. ci_user_id i = ci_user_id line \<and> ci_product_id i = p_id product)
              (cart_items d) = [line]"
    using cart_line_query_one [OF uq line(1)] line(2) by simp
  have m: "map (\<lambda>i. if ci_id i = ci_id line then x else i) (cart_items d)
         = map (\<lambda>i. if i = line then x else i) (cart_items d)" for x
    using ipk line(1) key_eq_imp_eq [of ci_id "cart_items d" line]
    by (intro map_cong) (auto simp: cart_items_pk_def)
  show ?thesis
    using q by (auto simp: add_to_cart_def p1 l1 prod(2) Let_def rollback_def commit_def m)
qed

text \<open>
  C10. update_cart_item does not look at the active flag of the product: for a cart
  line of the caller whose product is inactive and has at least the requested stock,
  the update succeeds and overwrites the quantity, while add_to_cart rejects the
  same product as not available, whatever the user and the quantity.
\<close>

theorem update_cart_item_inactive_product:
  assumes pk: "products_pk d" and ipk: "cart_items_pk d"
    and line: "line \<in> set (cart_items d)"
    and prod: "ci_product d line = Some product" "\<not> p_is_active product"
    and stock: "quantity \<le> p_stock_quantity product"
  shows "update_cart_item d (ci_id line) (ci_user_id line) quantity
           = (Inr (Some (line\<lparr>ci_quantity := quantity\<rparr>)),
              d\<lparr>cart_items := map (\<lambda>i. if i = line then line\<lparr>ci_quantity := quantity\<rparr> else i)
                   (cart_items d)\<rparr>)
       \<and> add_to_cart d new_id user_id (ci_product_id line) quantity'
           = (Inl Product_is_not_available, d)"
proof -
  from prod(1) have mem: "product \<in> set (products d)" and pid: "p_id product = ci_product_id line"
    by (auto simp: ci_product_def find_Some_iff)
  have p1: "filter (\<lambda>p. p_id p = ci_product_id line) (products d) = [product]"
    using product_query_one [OF pk mem] pid by simp
  have l1: "filter (\<lambda>i. ci_id i = ci_id line \<and> ci_user_id i = ci_user_id line) (cart_items d)
            = [line]"
    by (rule cart_item_query_one [OF ipk line])
  have m: "map (\<lambda>i. if ci_id i = ci_id line then x else i) (cart_items d)
         = map (\<lambda>i. if i = line then x else i) (cart_items d)" for x
    using ipk line key_eq_imp_eq [of ci_id "cart_items d" line]
    by (intro map_cong) (auto simp: cart_items_pk_def)
  show ?thesis
    using stock
    by (simp add: update_cart_item_def add_to_cart_def p1 l1 prod Let_def commit_def m)
qed

theorem add_to_cart_existing_line_witness:
  "add_to_cart cart_db 99 7 1 5 = (Inl Insufficient_stock, cart_db)
   \<and> add_to_cart cart_db 99 7 1 2
       = (Inr (line_a\<lparr>ci_quantity := 3\<rparr>),
          cart_db\<lparr>cart_items := [line_a\<lparr>ci_quantity := 3\<rparr>, line_b, line_c, line_d, line_e]\<rparr>)"
proof -
  have h: "products_pk cart_db" "cart_items_pk cart_db" "unique_user_product_cart cart_db"
    "prod_a \<in> set (products cart_db)" "p_is_active prod_a"
    "line_a \<in> set (cart_items cart_db)" "ci_product_id line_a = p_id prod_a"
    "1 \<le> ci_quantity line_a"
    by (simp_all add: products_pk_def cart_items_pk_def unique_user_product_cart_def
        cart_db_def example_rows)
  have ne: "line_b \<noteq> line_a" "line_c \<noteq> line_a" "line_d \<noteq> line_a" "line_e \<noteq> line_a"
    by (simp_all add: example_rows)
  have v: "ci_user_id line_a = 7" "p_id prod_a = 1" "ci_quantity line_a = 1"
    "p_stock_quantity prod_a = 5"
    by (simp_all add: example_rows)
  from add_to_cart_existing_line [OF h, of 5 99] add_to_cart_existing_line [OF h, of 2 99]
  show ?thesis
    by (simp add: v ne) (simp add: cart_db_def ne v)
qed

theorem update_cart_item_inactive_product_witness:
  "update_cart_item cart_db 13 8 6
     = (Inr (Some (line_d\<lparr>ci_quantity := 6\<rparr>)),
        cart_db\<lparr>cart_items := [line_a, line_b, line_c, line_d\<lparr>ci_quantity := 6\<rparr>, line_e]\<rparr>)
   \<and> add_to_cart cart_db 99 8 3 6 = (Inl Product_is_not_available, cart_db)"
proof -
  have h: "products_pk cart_db" "cart_items_pk cart_db"
    "line_d \<in> set (cart_items cart_db)"
    "ci_product cart_db line_d = Some prod_c" "\<not> p_is_active prod_c"
    "6 \<le> p_stock_quantity prod_c"
    by (simp_all add: products_pk_def cart_items_pk_def ci_product_def
        cart_db_def example_rows)
  have ne: "line_a \<noteq> line_d" "line_b \<noteq> line_d" "line_c \<noteq> line_d" "line_e \<noteq> line_d"
    by (simp_all add: example_rows)
  have v: "ci_user_id line_d = 8" "ci_id line_d = 13" "ci_product_id line_d = 3"
    by (simp_all add: example_rows)
  from update_cart_item_inactive_product [OF h, of 99 8 6]
  show ?thesis
    by (simp add: v ne) (simp add: cart_db_def ne v)
qed

text \<open>
  C5, as stated, does not ask for an active product. The line line_d of user 8 holds
  one piece of the inactive product prod_c, whose stock is 6: adding 10 more does
  not fail with "Insufficient stock", and adding 2 more does not raise the quantity
  to 3; both calls fail with "Product is not available" and store nothing.
\<close>

theorem add_to_cart_inactive_product_counterexample:
  "add_to_cart cart_db 99 8 3 10 = (Inl Product_is_not_available, cart_db)
   \<and> add_to_cart cart_db 99 8 3 2 = (Inl Product_is_not_available, cart_db)
   \<and> line_d \<in> set (cart_items cart_db)
   \<and> ci_user_id line_d = 8 \<and> ci_product_id line_d = 3 \<and> ci_quantity line_d = 1
   \<and> ci_product cart_db line_d = Some prod_c \<and> p_stock_quantity prod_c = 6"
  by (simp add: add_to_cart_def ci_product_def cart_db_def example_rows)


section \<open>Properties of the order service\<close>

lemma filter_key_cases:
  assumes "distinct (map f xs)"
  shows "filter (\<lambda>y. f y = k) xs = []
       \<or> (\<exists>x. x \<in> set xs \<and> f x = k \<and> filter (\<lambda>y. f y = k) xs = [x])"
proof (cases "k \<in> f ` set xs")
  case True
  then obtain x where "x \<in> set xs" "f x = k" by auto
  with filter_key_unique [OF assms, of x] show ?thesis by auto
next
  case False
  then have "filter (\<lambda>y. f y = k) xs = []" by (auto simp: filter_empty_conv)
  then show ?thesis by simp
qed

lemma line_quantity_Cons:
  "line_quantity (x # xs) k
     = (if oi_product_id x = Some k then oi_quantity x else 0) + line_quantity xs k"
  by (simp add: line_quantity_def)

lemma line_quantity_Nil: "line_quantity [] k = 0"
  by (simp add: line_quantity_def)

lemma place_items_Inr:
  assumes "distinct (map p_id (products d))"
    and "\<forall>x \<in> set its. \<exists>k. oi_product_id x = Some k \<and> k \<in> p_id ` set (products d)"
  shows "place_items order_id its d
         = Inr (d\<lparr>order_items := order_items d @
                    map (\<lambda>x. (OrderItem order_id x)
                       \<lparr>oi_subtotal := NUMERIC_10_2 (oi_subtotal (OrderItem order_id x))\<rparr>) its,
                  products := map (\<lambda>p. p\<lparr>p_stock_quantity :=
                       p_stock_quantity p - line_quantity its (p_id p)\<rparr>) (products d)\<rparr>)"
  using assms
proof (induction its arbitrary: d)
  case Nil
  then show ?case by (simp add: line_quantity_Nil)
next
  case (Cons x its)
  from Cons.prems(2) obtain k where k: "oi_product_id x = Some k" "k \<in> p_id ` set (products d)"
    by auto
  then obtain product where pr: "product \<in> set (products d)" "p_id product = k" by auto
  have q: "filter (\<lambda>p. Some (p_id p) = oi_product_id x) (products d) = [product]"
    using filter_key_unique [OF Cons.prems(1) pr(1)] k(1) pr(2) by (simp add: eq_commute)
  let ?upd = "\<lambda>p. if p_id p = p_id product
     then product\<lparr>p_stock_quantity := p_stock_quantity product - oi_quantity x\<rparr> else p"
  let ?d' = "d\<lparr>order_items := order_items d @
                 [(OrderItem order_id x)
                    \<lparr>oi_subtotal := NUMERIC_10_2 (oi_subtotal (OrderItem order_id x))\<rparr>],
               products := map ?upd (products d)\<rparr>"
  have ids: "map p_id (map ?upd (products d)) = map p_id (products d)"
    by (auto simp: comp_def)
  have step: "place_items order_id (x # its) d = place_items order_id its ?d'"
    by (simp add: q Let_def)
  have pd': "products ?d' = map ?upd (products d)" by simp
  have d1: "distinct (map p_id (products ?d'))"
    unfolding pd' ids by (rule Cons.prems(1))
  have "set (map p_id (products ?d')) = set (map p_id (products d))"
    unfolding pd' ids ..
  then have img: "p_id ` set (products ?d') = p_id ` set (products d)"
    by (simp only: set_map)
  have d2: "\<forall>y \<in> set its. \<exists>k. oi_product_id y = Some k \<and> k \<in> p_id ` set (products ?d')"
    unfolding img using Cons.prems(2) by simp
  have same: "p = product" if "p \<in> set (products d)" "p_id p = p_id product" for p
    using key_eq_imp_eq [OF Cons.prems(1) pr(1) that(1)] that(2) by simp
  have pt: "(?upd p)\<lparr>p_stock_quantity := p_stock_quantity (?upd p) - line_quantity its (p_id (?upd p))\<rparr>
      = p\<lparr>p_stock_quantity := p_stock_quantity p - line_quantity (x # its) (p_id p)\<rparr>"
    if "p \<in> set (products d)" for p
    using same [OF that] k(1) pr(2) by (auto simp: line_quantity_Cons)
  show ?case
    unfolding step Cons.IH [OF d1 d2]
    using pt by (simp add: comp_def)
qed

lemma place_items_keeps:
  "place_items order_id its d = Inr d2 \<Longrightarrow>
     orders d2 = orders d \<and> cart_items d2 = cart_items d"
proof (induction its arbitrary: d)
  case Nil
  then show ?case by simp
next
  case (Cons x its)
  then show ?case
    by (auto simp: Let_def split: sum.splits)
qed

lemma filter_fresh_append:
  "k \<notin> set (map f xs) \<Longrightarrow> f x = k \<Longrightarrow> filter (\<lambda>r. f r = k) (xs @ [x]) = [x]"
  by (induction xs) auto


lemma find_map_key:
  assumes "\<forall>x \<in> set xs. f (g x) = f x"
  shows "find (\<lambda>p. f p = k) (map g xs) = map_option g (find (\<lambda>p. f p = k) xs)"
  using assms by (induction xs) auto

lemma ci_product_id_eq: "ci_product d i = Some p \<Longrightarrow> p_id p = ci_product_id i"
  by (auto simp: ci_product_def find_Some_iff)

lemma validate_lines_InrD:
  "validate_lines d lines acc items = Inr (s, its) \<Longrightarrow>
     map (\<lambda>x. (oi_product_id x, oi_quantity x)) its
     = map (\<lambda>x. (oi_product_id x, oi_quantity x)) items
       @ map (\<lambda>i. (Some (ci_product_id i), ci_quantity i)) lines
   \<and> (\<forall>i \<in> set lines. \<exists>p. ci_product d i = Some p \<and> p_is_active p
          \<and> ci_quantity i \<le> p_stock_quantity p)"
proof (induction lines arbitrary: acc items)
  case Nil
  then show ?case by simp
next
  case (Cons i lines)
  from Cons.prems obtain p where p: "ci_product d i = Some p" "p_is_active p"
      "ci_quantity i \<le> p_stock_quantity p"
    by (auto split: option.splits if_splits)
  from Cons.prems p Cons.IH show ?case
    using ci_product_id_eq [OF p(1)] by (fastforce simp: Let_def)
qed

lemma validate_lines_ok:
  "\<forall>i \<in> set lines. \<exists>p. ci_product d i = Some p \<and> p_is_active p
       \<and> ci_quantity i \<le> p_stock_quantity p \<Longrightarrow>
   \<exists>s its. validate_lines d lines acc items = Inr (s, its)"
  by (induction lines arbitrary: acc items) (auto simp: Let_def)

lemma line_quantity_pairs:
  "map (\<lambda>x. (oi_product_id x, oi_quantity x)) its = map (\<lambda>i. (Some (g i), h i)) lines \<Longrightarrow>
   line_quantity its k = sum_list (map h (filter (\<lambda>i. g i = k) lines))"
proof (induction its arbitrary: lines)
  case Nil
  then show ?case by (simp add: line_quantity_def)
next
  case (Cons x its)
  then obtain i rest where l: "lines = i # rest" by (cases lines) auto
  with Cons show ?case by (auto simp: line_quantity_Cons)
qed


lemma create_order_failure_keeps_store:
  assumes "create_order d new_id num now uid od = (Inl e, d')"
  shows "d' = d"
proof (cases "filter (\<lambda>i. ci_user_id i = uid) (cart_items d) = []")
  case True
  with assms show ?thesis by (simp add: create_order_def)
next
  case ne: False
  show ?thesis
  proof (cases "validate_lines d (filter (\<lambda>i. ci_user_id i = uid) (cart_items d)) 0 []")
    case (Inl a)
    with assms ne show ?thesis by (simp add: create_order_def)
  next
    case (Inr r)
    obtain s its where r: "r = (s, its)" by (cases r)
    show ?thesis
    proof (cases "new_id \<in> set (map o_id (orders d))
        \<or> num \<in> set (map o_order_number (orders d))")
      case True
      with assms ne Inr r show ?thesis
        by (auto simp: create_order_def Let_def rollback_def)
    next
      case False
      then have fresh: "new_id \<notin> set (map o_id (orders d))" by simp
      have "place_items new_id its d1 = Inr d2 \<Longrightarrow> orders d1 = orders d @ [x] \<Longrightarrow> o_id x = new_id
        \<Longrightarrow> scalar_one (filter (\<lambda>r. o_id r = new_id) (orders d2)) = Inr x" for d1 d2 x
        using place_items_keeps [of new_id its d1 d2] filter_fresh_append [OF fresh, of x]
        by simp
      with assms ne Inr r False show ?thesis
        by (auto simp: create_order_def Let_def rollback_def commit_def split: sum.splits)
    qed
  qed
qed


text \<open>
  The two carts that the specification of create_order gives as examples: 3000 and
  2500 make an order of subtotal 5500, shipping_cost 0 and total_amount 5500; a
  single line of 1000 makes one of subtotal 1000, shipping_cost 250 and total_amount
  1250.
\<close>

lemma create_order_totals_examples:
  "map_sum id (\<lambda>r. (o_subtotal r, o_shipping_cost r, o_tax_amount r, o_discount_amount r,
        o_total_amount r))
     (fst (create_order cart_db 100 ''MP-20240101000000-0007'' 5 7 checkout))
     = Inr (5500, 0, 0, 0, 5500)"
  "map_sum id (\<lambda>r. (o_subtotal r, o_shipping_cost r, o_tax_amount r, o_discount_amount r,
        o_total_amount r))
     (fst (create_order cart_db 100 ''MP-20240101000000-0009'' 5 9 checkout))
     = Inr (1000, 250, 0, 0, 1250)"
proof -
  have m: "float_mul (binary64 3000) (binary64 1) = 3000"
    "float_mul (binary64 2500) (binary64 1) = 2500"
    "float_mul (binary64 1000) (binary64 1) = 1000"
    by (simp_all add: float_eval)
  have a: "float_add 0 3000 = 3000" "float_add 3000 2500 = 5500" "float_add 0 1000 = 1000"
    "float_add 5500 (binary64 0) = 5500" "float_add 1000 (binary64 250) = 1250"
    by (simp_all add: float_eval)
  have n: "NUMERIC_10_2 5500 = 5500" "NUMERIC_10_2 1000 = 1000" "NUMERIC_10_2 1250 = 1250"
    "NUMERIC_10_2 250 = 250" "NUMERIC_10_2 0 = 0"
    by (simp_all add: NUMERIC_10_2_def)
  show "map_sum id (\<lambda>r. (o_subtotal r, o_shipping_cost r, o_tax_amount r, o_discount_amount r,
        o_total_amount r))
     (fst (create_order cart_db 100 ''MP-20240101000000-0007'' 5 7 checkout))
     = Inr (5500, 0, 0, 0, 5500)"
    by (simp add: create_order_def cart_db_def example_rows ci_product_def OrderItem_def
        commit_def Let_def m a n)
  show "map_sum id (\<lambda>r. (o_subtotal r, o_shipping_cost r, o_tax_amount r, o_discount_amount r,
        o_total_amount r))
     (fst (create_order cart_db 100 ''MP-20240101000000-0009'' 5 9 checkout))
     = Inr (1000, 250, 0, 0, 1250)"
    by (simp add: create_order_def cart_db_def example_rows ci_product_def OrderItem_def
        commit_def Let_def m a n)
qed

text \<open>
  C3. At the store float_db the cart of user 7 holds three pieces at 1656.60 and one
  piece at 30.20: the sum over the lines of price times quantity is 5000. The float
  subtotal of create_order is 4999.999999999999, below the threshold, so the order
  is charged the shipping_cost 250; the NUMERIC(10, 2) columns of the stored order
  hold subtotal 5000.00, shipping_cost 250.00 and total_amount 5250.00.
\<close>

theorem create_order_float_threshold:
  "map_sum id fst
     (validate_lines float_db (filter (\<lambda>i. ci_user_id i = 7) (cart_items float_db)) 0 [])
     = Inr (5497558138879999 / 1099511627776)
   \<and> map_sum id (\<lambda>r. (o_subtotal r, o_shipping_cost r, o_tax_amount r, o_discount_amount r,
          o_total_amount r))
       (fst (create_order float_db 100 ''MP-20240101000000-0007'' 5 7 checkout))
       = Inr (5000, 250, 0, 0, 5250)
   \<and> map (\<lambda>r. (o_subtotal r, o_shipping_cost r, o_tax_amount r, o_discount_amount r,
          o_total_amount r))
       (orders (snd (create_order float_db 100 ''MP-20240101000000-0007'' 5 7 checkout)))
       = [(5000, 250, 0, 0, 5250)]
   \<and> (\<Sum>i \<leftarrow> filter (\<lambda>i. ci_user_id i = 7) (cart_items float_db).
        p_price (the (ci_product float_db i)) * of_int (ci_quantity i)) = 5000"
proof -
  have m: "float_mul (binary64 (8283 / 5)) (binary64 3) = 1366088221930291 / 274877906944"
    "float_mul (binary64 (151 / 5)) (binary64 1) = 8500544296661811 / 281474976710656"
    by (simp_all add: float_eval)
  have a: "float_add 0 (1366088221930291 / 274877906944) = 1366088221930291 / 274877906944"
    "float_add (1366088221930291 / 274877906944) (8500544296661811 / 281474976710656)
       = 5497558138879999 / 1099511627776"
    "float_add (5497558138879999 / 1099511627776) (binary64 250)
       = 5772436045823999 / 1099511627776"
    by (simp_all add: float_eval)
  have n: "NUMERIC_10_2 (5497558138879999 / 1099511627776) = 5000"
    "NUMERIC_10_2 (5772436045823999 / 1099511627776) = 5250"
    "NUMERIC_10_2 250 = 250" "NUMERIC_10_2 0 = 0"
    by (simp_all add: NUMERIC_10_2_def)
  have v: "map_sum id fst
     (validate_lines float_db (filter (\<lambda>i. ci_user_id i = 7) (cart_items float_db)) 0 [])
     = Inr (5497558138879999 / 1099511627776)"
    by (simp add: float_db_def example_rows ci_product_def Let_def m a)
  have c: "map_sum id (\<lambda>r. (o_subtotal r, o_shipping_cost r, o_tax_amount r, o_discount_amount r,
          o_total_amount r))
       (fst (create_order float_db 100 ''MP-20240101000000-0007'' 5 7 checkout))
       = Inr (5000, 250, 0, 0, 5250)"
    by (simp add: create_order_def float_db_def example_rows ci_product_def OrderItem_def
        commit_def Let_def m a n)
  have s: "map (\<lambda>r. (o_subtotal r, o_shipping_cost r, o_tax_amount r, o_discount_amount r,
          o_total_amount r))
       (orders (snd (create_order float_db 100 ''MP-20240101000000-0007'' 5 7 checkout)))
       = [(5000, 250, 0, 0, 5250)]"
    by (simp add: create_order_def float_db_def example_rows ci_product_def OrderItem_def
        commit_def Let_def m a n)
  have e: "(\<Sum>i \<leftarrow> filter (\<lambda>i. ci_user_id i = 7) (cart_items float_db).
        p_price (the (ci_product float_db i)) * of_int (ci_quantity i)) = 5000"
    by (simp add: float_db_def example_rows ci_product_def)
  from v c s e show ?thesis by (simp only: simp_thms)
qed

text \<open>
  C1. For a user with a non-empty cart whose every line references an active product
  with at least the line's quantity in stock, create_order succeeds (its new id and
  order_number being unused) and stores in one commit: the order and one order line
  per cart line, the stock of each ordered product reduced by exactly the line's
  quantity, every other product as it was, and no cart line of the user any more.
  A create_order that fails stores nothing (create_order_failure_keeps_store).
\<close>

theorem create_order_clears_cart_and_reduces_stock:
  assumes pk: "products_pk d" and uq: "unique_user_product_cart d"
    and ne: "filter (\<lambda>i. ci_user_id i = user_id) (cart_items d) \<noteq> []"
    and ok: "\<forall>line \<in> set (cart_items d). ci_user_id line = user_id \<longrightarrow>
               (\<exists>p. ci_product d line = Some p \<and> p_is_active p
                   \<and> p_stock_quantity p \<ge> ci_quantity line)"
    and fresh: "new_id \<notin> set (map o_id (orders d))"
      "order_number \<notin> set (map o_order_number (orders d))"
  shows "\<exists>order d' new.
      create_order d new_id order_number now user_id order_data = (Inr order, d')
    \<and> cart_items d' = filter (\<lambda>i. ci_user_id i \<noteq> user_id) (cart_items d)
    \<and> filter (\<lambda>i. ci_user_id i = user_id) (cart_items d') = []
    \<and> (\<forall>line \<in> set (cart_items d). ci_user_id line = user_id \<longrightarrow>
          (\<exists>p. ci_product d line = Some p
             \<and> ci_product d' line
                 = Some (p\<lparr>p_stock_quantity := p_stock_quantity p - ci_quantity line\<rparr>)))
    \<and> (\<forall>p \<in> set (products d).
          (\<forall>line \<in> set (cart_items d).
              ci_user_id line = user_id \<longrightarrow> ci_product_id line \<noteq> p_id p)
          \<longrightarrow> p \<in> set (products d'))
    \<and> orders d' = orders d @ [order]
    \<and> order_items d' = order_items d @ new
    \<and> map (\<lambda>x. (oi_order_id x, oi_product_id x, oi_quantity x)) new
        = map (\<lambda>i. (new_id, Some (ci_product_id i), ci_quantity i))
            (filter (\<lambda>i. ci_user_id i = user_id) (cart_items d))"
proof -
  let ?lines = "filter (\<lambda>i. ci_user_id i = user_id) (cart_items d)"
  have ok': "\<forall>i \<in> set ?lines. \<exists>p. ci_product d i = Some p \<and> p_is_active p
       \<and> ci_quantity i \<le> p_stock_quantity p"
    using ok by simp
  from validate_lines_ok [OF ok'] obtain s its where
    v: "validate_lines d ?lines 0 [] = Inr (s, its)" by blast
  from validate_lines_InrD [OF v] have
    pairs: "map (\<lambda>x. (oi_product_id x, oi_quantity x)) its
            = map (\<lambda>i. (Some (ci_product_id i), ci_quantity i)) ?lines"
    by simp
  define order where "order = \<lparr>o_id = new_id, o_user_id = user_id,
                      o_order_number = order_number,
                      o_total_amount = NUMERIC_10_2
                        (float_add s (binary64 (of_int (if s \<ge> 5000 then 0 else 250 :: int)))),
                      o_subtotal = NUMERIC_10_2 s,
                      o_shipping_cost = NUMERIC_10_2 (of_int (if s \<ge> 5000 then 0 else 250 :: int)),
                      o_tax_amount = NUMERIC_10_2 0,
                      o_discount_amount = NUMERIC_10_2 0,
                      o_status = PENDING, o_payment_status = PAY_PENDING,
                      o_customer_name = customer_name order_data,
                      o_customer_email = customer_email order_data,
                      o_customer_phone = customer_phone order_data,
                      o_payment_method = payment_method order_data,
                      o_customer_notes = customer_notes order_data,
                      o_created_at = now\<rparr>"
  let ?d1 = "d\<lparr>orders := orders d @ [order]\<rparr>"
  have dist: "distinct (map p_id (products ?d1))"
    using pk by (simp add: products_pk_def)
  have refs: "\<forall>x \<in> set its. \<exists>k. oi_product_id x = Some k \<and> k \<in> p_id ` set (products ?d1)"
  proof
    fix x assume "x \<in> set its"
    then have "(oi_product_id x, oi_quantity x) \<in> set (map (\<lambda>x. (oi_product_id x, oi_quantity x)) its)"
      by (simp add: image_iff) blast
    then obtain i where i: "i \<in> set ?lines" "oi_product_id x = Some (ci_product_id i)"
      unfolding pairs by auto
    from i(1) ok' obtain p where "ci_product d i = Some p" by blast
    then have "p \<in> set (products d)" "p_id p = ci_product_id i"
      by (auto simp: ci_product_def find_Some_iff)
    then have "ci_product_id i \<in> p_id ` set (products ?d1)"
      by (simp add: image_iff) (metis)
    with i(2) show "\<exists>k. oi_product_id x = Some k \<and> k \<in> p_id ` set (products ?d1)"
      by blast
  qed
  let ?sub = "\<lambda>p. p\<lparr>p_stock_quantity := p_stock_quantity p - line_quantity its (p_id p)\<rparr>"
  let ?stored = "\<lambda>x. (OrderItem new_id x)
     \<lparr>oi_subtotal := NUMERIC_10_2 (oi_subtotal (OrderItem new_id x))\<rparr>"
  let ?d2 = "?d1\<lparr>order_items := order_items ?d1 @ map ?stored its,
                 products := map ?sub (products ?d1)\<rparr>"
  have p: "place_items new_id its ?d1 = Inr ?d2"
    by (rule place_items_Inr [OF dist refs])
  let ?d' = "?d2\<lparr>cart_items := filter (\<lambda>i. ci_user_id i \<noteq> user_id) (cart_items ?d2)\<rparr>"
  have f: "filter (\<lambda>r. o_id r = new_id) (orders ?d') = [order]"
    using filter_fresh_append [OF fresh(1), of order] by (simp add: order_def)
  have co: "create_order d new_id order_number now user_id order_data = (Inr order, ?d')"
    using ne v fresh p f
    by (simp add: create_order_def Let_def commit_def order_def)
  have lq: "line_quantity its k = sum_list (map ci_quantity (filter (\<lambda>i. ci_product_id i = k) ?lines))"
    for k by (rule line_quantity_pairs [OF pairs])
  have stock: "\<exists>p. ci_product d line = Some p
             \<and> ci_product ?d' line
                 = Some (p\<lparr>p_stock_quantity := p_stock_quantity p - ci_quantity line\<rparr>)"
    if "line \<in> set (cart_items d)" "ci_user_id line = user_id" for line
  proof -
    from ok that obtain p where p: "ci_product d line = Some p" by blast
    have "filter (\<lambda>i. ci_product_id i = ci_product_id line) ?lines
          = filter (\<lambda>i. ci_user_id i = ci_user_id line \<and> ci_product_id i = ci_product_id line)
              (cart_items d)"
      using that(2) by (simp add: conj_commute)
    also have "\<dots> = [line]" by (rule cart_line_query_one [OF uq that(1)])
    finally have q: "line_quantity its (ci_product_id line) = ci_quantity line"
      by (simp add: lq)
    have "ci_product ?d' line = map_option ?sub (ci_product d line)"
      unfolding ci_product_def by (simp add: find_map_key)
    with p q ci_product_id_eq [OF p] show ?thesis by simp
  qed
  have keep: "p \<in> set (products ?d')"
    if "p \<in> set (products d)"
      "\<forall>line \<in> set (cart_items d). ci_user_id line = user_id \<longrightarrow> ci_product_id line \<noteq> p_id p"
    for p
  proof -
    from that(2) have "filter (\<lambda>i. ci_product_id i = p_id p) ?lines = []"
      by (auto simp: filter_empty_conv)
    then have "line_quantity its (p_id p) = 0" by (simp add: lq)
    then have "?sub p = p" by simp
    with that(1) show ?thesis by (simp add: image_iff) (metis)
  qed
  have items: "map (\<lambda>x. (oi_order_id x, oi_product_id x, oi_quantity x)) (map ?stored its)
        = map (\<lambda>i. (new_id, Some (ci_product_id i), ci_quantity i)) ?lines"
  proof -
    have "map (\<lambda>x. (oi_order_id x, oi_product_id x, oi_quantity x)) (map ?stored its)
        = map (\<lambda>(a, b). (new_id, a, b)) (map (\<lambda>x. (oi_product_id x, oi_quantity x)) its)"
      by (simp add: OrderItem_def comp_def)
    then show ?thesis unfolding pairs by (simp add: comp_def)
  qed
  show ?thesis
    apply (rule exI [of _ order], rule exI [of _ ?d'], rule exI [of _ "map ?stored its"])
    using co stock keep items by simp
qed

theorem create_order_clears_cart_and_reduces_stock_witness:
  "\<exists>order d'. create_order cart_db 100 ''MP-20240101000000-0007'' 5 7 checkout = (Inr order, d')
     \<and> cart_items d' = [line_c, line_d, line_e]
     \<and> ci_product d' line_a = Some (prod_a\<lparr>p_stock_quantity := 4\<rparr>)
     \<and> ci_product d' line_b = Some (prod_b\<lparr>p_stock_quantity := 3\<rparr>)
     \<and> prod_d \<in> set (products d')
     \<and> orders d' = [order]"
proof -
  have h: "products_pk cart_db" "unique_user_product_cart cart_db"
    "filter (\<lambda>i. ci_user_id i = 7) (cart_items cart_db) \<noteq> []"
    "\<forall>line \<in> set (cart_items cart_db). ci_user_id line = 7 \<longrightarrow>
               (\<exists>p. ci_product cart_db line = Some p \<and> p_is_active p
                   \<and> p_stock_quantity p \<ge> ci_quantity line)"
    "100 \<notin> set (map o_id (orders cart_db))"
    "''MP-20240101000000-0007'' \<notin> set (map o_order_number (orders cart_db))"
    by (simp_all add: products_pk_def unique_user_product_cart_def ci_product_def
        cart_db_def example_rows)
  from create_order_clears_cart_and_reduces_stock [OF h, of 5 checkout]
  obtain order d' where
    c: "create_order cart_db 100 ''MP-20240101000000-0007'' 5 7 checkout = (Inr order, d')"
    and ci: "cart_items d' = filter (\<lambda>i. ci_user_id i \<noteq> 7) (cart_items cart_db)"
    and st: "\<forall>line \<in> set (cart_items cart_db). ci_user_id line = 7 \<longrightarrow>
          (\<exists>p. ci_product cart_db line = Some p
             \<and> ci_product d' line
                 = Some (p\<lparr>p_stock_quantity := p_stock_quantity p - ci_quantity line\<rparr>))"
    and kp: "\<forall>p \<in> set (products cart_db).
          (\<forall>line \<in> set (cart_items cart_db).
              ci_user_id line = 7 \<longrightarrow> ci_product_id line \<noteq> p_id p)
          \<longrightarrow> p \<in> set (products d')"
    and os: "orders d' = orders cart_db @ [order]"
    by blast
  have a: "ci_product d' line_a = Some (prod_a\<lparr>p_stock_quantity := 4\<rparr>)"
    using st [rule_format, of line_a]
    by (simp add: cart_db_def ci_product_def) (simp add: example_rows)
  have b: "ci_product d' line_b = Some (prod_b\<lparr>p_stock_quantity := 3\<rparr>)"
    using st [rule_format, of line_b]
    by (simp add: cart_db_def ci_product_def) (simp add: example_rows)
  have k1: "prod_d \<in> set (products cart_db)"
    by (simp add: cart_db_def)
  have k2: "\<forall>line \<in> set (cart_items cart_db).
              ci_user_id line = 7 \<longrightarrow> ci_product_id line \<noteq> p_id prod_d"
    by (simp add: cart_db_def example_rows)
  have k: "prod_d \<in> set (products d')"
    using kp k1 k2 by blast
  have l: "cart_items d' = [line_c, line_d, line_e]"
    unfolding ci by (simp add: cart_db_def example_rows)
  from c a b k l os show ?thesis
    by (simp add: cart_db_def)
qed



lemma restore_stock_Inr:
  assumes "distinct (map p_id (products d))"
  shows "restore_stock its d
         = Inr (d\<lparr>products := map (\<lambda>p. p\<lparr>p_stock_quantity :=
                       p_stock_quantity p + line_quantity its (p_id p)\<rparr>) (products d)\<rparr>)"
  using assms
proof (induction its arbitrary: d)
  case Nil
  then show ?case by (simp add: line_quantity_Nil)
next
  case (Cons x its)
  show ?case
  proof (cases "oi_product_id x")
    case None
    then have "line_quantity (x # its) k = line_quantity its k" for k
      by (simp add: line_quantity_Cons)
    with None Cons show ?thesis by simp
  next
    case (Some k)
    from filter_key_cases [OF Cons.prems, of k]
    consider (absent) "filter (\<lambda>p. p_id p = k) (products d) = []"
      | (present) product where "product \<in> set (products d)" "p_id product = k"
          "filter (\<lambda>p. p_id p = k) (products d) = [product]"
      by blast
    then show ?thesis
    proof cases
      case absent
      then have "\<forall>p \<in> set (products d). p_id p \<noteq> k"
        by (simp add: filter_empty_conv)
      then have "\<forall>p \<in> set (products d). line_quantity (x # its) (p_id p) = line_quantity its (p_id p)"
        using Some by (auto simp: line_quantity_Cons)
      with Some absent Cons show ?thesis by simp
    next
      case present
      let ?upd = "\<lambda>p. if p_id p = p_id product
         then product\<lparr>p_stock_quantity := p_stock_quantity product + oi_quantity x\<rparr> else p"
      let ?d' = "d\<lparr>products := map ?upd (products d)\<rparr>"
      have ids: "map p_id (map ?upd (products d)) = map p_id (products d)"
        by (auto simp: comp_def)
      have pd': "products ?d' = map ?upd (products d)" by simp
      have d1: "distinct (map p_id (products ?d'))"
        unfolding pd' ids by (rule Cons.prems)
      have step: "restore_stock (x # its) d = restore_stock its ?d'"
        using Some present(3) by simp
      have same: "p = product" if "p \<in> set (products d)" "p_id p = p_id product" for p
        using key_eq_imp_eq [OF Cons.prems present(1) that(1)] that(2) by simp
      have pt: "(?upd p)\<lparr>p_stock_quantity :=
            p_stock_quantity (?upd p) + line_quantity its (p_id (?upd p))\<rparr>
          = p\<lparr>p_stock_quantity := p_stock_quantity p + line_quantity (x # its) (p_id p)\<rparr>"
        if "p \<in> set (products d)" for p
        using same [OF that] Some present(2) by (auto simp: line_quantity_Cons)
      show ?thesis
        unfolding step Cons.IH [OF d1]
        using pt by (simp add: comp_def)
    qed
  qed
qed

lemma order_query_one:
  assumes "orders_pk d" "order \<in> set (orders d)"
  shows "filter (\<lambda>r. o_id r = o_id order \<and> o_user_id r = o_user_id order) (orders d) = [order]"
proof -
  have "filter (\<lambda>r. o_id r = o_id order \<and> o_user_id r = o_user_id order) (orders d)
        = filter (\<lambda>r. o_id r = o_id order) (orders d)"
    using assms key_eq_imp_eq [of o_id "orders d" order]
    by (intro filter_cong) (auto simp: orders_pk_def)
  then show ?thesis
    using filter_key_unique [of o_id "orders d" order] assms
    by (simp add: orders_pk_def)
qed

text \<open>
  C4. cancel_order returns None, which the route reports as 404 Not Found, when no
  order has the given id and owner. For the order with that id and owner: when its
  status is neither pending nor confirmed the call fails with "Order cannot be
  cancelled at this stage" (a 400 of the route) and the store is as before;
  otherwise the order's status becomes cancelled and the stock of every product
  grows by the quantities of the order's lines that reference it, lines without a
  product or with a deleted product changing nothing.
\<close>

theorem cancel_order_cases:
  assumes pk: "products_pk d" and opk: "orders_pk d"
  shows "((\<forall>r \<in> set (orders d). \<not> (o_id r = order_id \<and> o_user_id r = user_id)) \<longrightarrow>
            cancel_order d order_id user_id = (Inr None, d)
          \<and> cancel_order_route d order_id user_id = (Inl HTTP_404_NOT_FOUND, d))
       \<and> (\<forall>order \<in> set (orders d). o_id order = order_id \<and> o_user_id order = user_id \<longrightarrow>
            (o_status order \<notin> {PENDING, CONFIRMED} \<longrightarrow>
               cancel_order d order_id user_id = (Inl Order_cannot_be_cancelled, d)
             \<and> cancel_order_route d order_id user_id = (Inl HTTP_400_BAD_REQUEST, d))
          \<and> (o_status order \<in> {PENDING, CONFIRMED} \<longrightarrow>
               cancel_order d order_id user_id
                 = (Inr (Some (order\<lparr>o_status := CANCELLED\<rparr>)),
                    d\<lparr>orders := map (\<lambda>r. if r = order then order\<lparr>o_status := CANCELLED\<rparr> else r)
                                  (orders d),
                      products := map (\<lambda>p. p\<lparr>p_stock_quantity :=
                          p_stock_quantity p + line_quantity (o_items d order) (p_id p)\<rparr>)
                        (products d)\<rparr>)))"
proof (intro conjI impI ballI)
  assume "\<forall>r \<in> set (orders d). \<not> (o_id r = order_id \<and> o_user_id r = user_id)"
  then have e: "filter (\<lambda>r. o_id r = order_id \<and> o_user_id r = user_id) (orders d) = []"
    by (simp add: filter_empty_conv)
  then show "cancel_order d order_id user_id = (Inr None, d)"
    by (simp add: cancel_order_def)
  then show "cancel_order_route d order_id user_id = (Inl HTTP_404_NOT_FOUND, d)"
    by (simp add: cancel_order_route_def)
next
  fix order
  assume mem: "order \<in> set (orders d)"
    and own: "o_id order = order_id \<and> o_user_id order = user_id"
  from own have oid: "order_id = o_id order" and uid: "user_id = o_user_id order" by auto
  have q: "filter (\<lambda>r. o_id r = order_id \<and> o_user_id r = user_id) (orders d) = [order]"
    unfolding oid uid by (rule order_query_one [OF opk mem])
  {
    assume "o_status order \<notin> {PENDING, CONFIRMED}"
    then show c: "cancel_order d order_id user_id = (Inl Order_cannot_be_cancelled, d)"
      by (simp add: cancel_order_def q)
    show "cancel_order_route d order_id user_id = (Inl HTTP_400_BAD_REQUEST, d)"
      by (simp add: cancel_order_route_def c)
  }
  {
    assume st: "o_status order \<in> {PENDING, CONFIRMED}"
    let ?d1 = "d\<lparr>orders := map (\<lambda>r. if o_id r = o_id order then order\<lparr>o_status := CANCELLED\<rparr> else r)
         (orders d)\<rparr>"
    have m: "map (\<lambda>r. if o_id r = o_id order then x else r) (orders d)
         = map (\<lambda>r. if r = order then x else r) (orders d)" for x
      using opk mem key_eq_imp_eq [of o_id "orders d" order]
      by (intro map_cong) (auto simp: orders_pk_def)
    have dist: "distinct (map p_id (products ?d1))"
      using pk by (simp add: products_pk_def)
    show "cancel_order d order_id user_id
                 = (Inr (Some (order\<lparr>o_status := CANCELLED\<rparr>)),
                    d\<lparr>orders := map (\<lambda>r. if r = order then order\<lparr>o_status := CANCELLED\<rparr> else r)
                                  (orders d),
                      products := map (\<lambda>p. p\<lparr>p_stock_quantity :=
                          p_stock_quantity p + line_quantity (o_items d order) (p_id p)\<rparr>)
                        (products d)\<rparr>)"
    proof -
      have r: "restore_stock (o_items d order) ?d1
         = Inr (?d1\<lparr>products := map (\<lambda>p. p\<lparr>p_stock_quantity :=
                       p_stock_quantity p + line_quantity (o_items d order) (p_id p)\<rparr>)
                  (products ?d1)\<rparr>)"
        by (rule restore_stock_Inr [OF dist])
      have c: "cancel_order d order_id user_id
         = (Inr (Some (order\<lparr>o_status := CANCELLED\<rparr>)),
            ?d1\<lparr>products := map (\<lambda>p. p\<lparr>p_stock_quantity :=
                       p_stock_quantity p + line_quantity (o_items d order) (p_id p)\<rparr>)
                  (products ?d1)\<rparr>)"
      proof -
        have ns: "\<not> (o_status order \<notin> set [PENDING, CONFIRMED])" using st by simp
        show ?thesis
          by (simp only: cancel_order_def q scalar_one_or_none.simps sum.case option.case
              ns if_False Let_def r commit_def)
      qed
      show ?thesis
        unfolding c m by simp
    qed
  }
qed

theorem cancel_order_cases_witness:
  "cancel_order order_db 20 8 = (Inr None, order_db)
   \<and> cancel_order_route order_db 20 8 = (Inl HTTP_404_NOT_FOUND, order_db)
   \<and> cancel_order order_db 21 7 = (Inl Order_cannot_be_cancelled, order_db)
   \<and> cancel_order_route order_db 21 7 = (Inl HTTP_400_BAD_REQUEST, order_db)
   \<and> cancel_order order_db 20 7
       = (Inr (Some (ord_1\<lparr>o_status := CANCELLED\<rparr>)),
          order_db\<lparr>orders := [ord_1\<lparr>o_status := CANCELLED\<rparr>, ord_2],
                    products := [prod_a\<lparr>p_stock_quantity := 7\<rparr>, prod_b]\<rparr>)"
proof -
  have h: "products_pk order_db" "orders_pk order_db"
    by (simp_all add: products_pk_def orders_pk_def order_db_def example_rows)
  have n: "\<forall>r \<in> set (orders order_db). \<not> (o_id r = 20 \<and> o_user_id r = 8)"
    by (simp add: order_db_def example_rows)
  have m: "ord_1 \<in> set (orders order_db)" "ord_2 \<in> set (orders order_db)"
    by (simp_all add: order_db_def)
  have o1: "o_id ord_1 = 20 \<and> o_user_id ord_1 = 7" "o_status ord_1 \<in> {PENDING, CONFIRMED}"
    and o2: "o_id ord_2 = 21 \<and> o_user_id ord_2 = 7" "o_status ord_2 \<notin> {PENDING, CONFIRMED}"
    by (simp_all add: example_rows)
  have ne: "ord_2 \<noteq> ord_1"
    by (simp add: example_rows)
  have lq: "line_quantity (o_items order_db ord_1) (p_id prod_a) = 2"
    "line_quantity (o_items order_db ord_1) (p_id prod_b) = 0"
    by (simp_all add: line_quantity_def o_items_def order_db_def example_rows)
  have st: "prod_a\<lparr>p_stock_quantity := p_stock_quantity prod_a + 2\<rparr>
      = prod_a\<lparr>p_stock_quantity := 7\<rparr>"
    "prod_b\<lparr>p_stock_quantity := p_stock_quantity prod_b + 0\<rparr> = prod_b"
    by (simp_all add: example_rows)
  from cancel_order_cases [OF h, of 20 8] n
  have a: "cancel_order order_db 20 8 = (Inr None, order_db)"
    "cancel_order_route order_db 20 8 = (Inl HTTP_404_NOT_FOUND, order_db)"
    by blast+
  from cancel_order_cases [OF h, of 21 7] m(2) o2
  have b: "cancel_order order_db 21 7 = (Inl Order_cannot_be_cancelled, order_db)"
    "cancel_order_route order_db 21 7 = (Inl HTTP_400_BAD_REQUEST, order_db)"
    by blast+
  from cancel_order_cases [OF h, of 20 7] m(1) o1
  have "cancel_order order_db 20 7
       = (Inr (Some (ord_1\<lparr>o_status := CANCELLED\<rparr>)),
          order_db\<lparr>orders := map (\<lambda>r. if r = ord_1 then ord_1\<lparr>o_status := CANCELLED\<rparr> else r)
                                  (orders order_db),
                    products := map (\<lambda>p. p\<lparr>p_stock_quantity :=
                          p_stock_quantity p + line_quantity (o_items order_db ord_1) (p_id p)\<rparr>)
                        (products order_db)\<rparr>)"
    by blast
  also have "map (\<lambda>r. if r = ord_1 then ord_1\<lparr>o_status := CANCELLED\<rparr> else r) (orders order_db)
     = [ord_1\<lparr>o_status := CANCELLED\<rparr>, ord_2]"
    using ne by (simp add: order_db_def)
  also have "map (\<lambda>p. p\<lparr>p_stock_quantity :=
                          p_stock_quantity p + line_quantity (o_items order_db ord_1) (p_id p)\<rparr>)
                        (products order_db)
     = [prod_a\<lparr>p_stock_quantity := 7\<rparr>, prod_b]"
    using lq st by (simp add: order_db_def)
  finally show ?thesis using a b by simp
qed

section \<open>Properties of the review service\<close>

lemma scalar_one_or_none_many:
  "2 \<le> length xs \<Longrightarrow> scalar_one_or_none xs = Inl MultipleResultsFound"
  by (cases xs rule: scalar_one_or_none.cases) auto

text \<open>
  C9. For a user without a review of the product whose order history holds two or
  more order lines of that product, create_review returns no review and raises no
  ValueError: the lookup of the verified purchase (scalar_one_or_none) raises
  MultipleResultsFound, which the route does not handle, and nothing is stored.
\<close>

theorem create_review_repeat_purchase:
  assumes "filter (\<lambda>r. r_user_id r = user_id \<and> r_product_id r = rc_product_id review_data)
             (reviews d) = []"
    and "2 \<le> length (purchased d user_id (rc_product_id review_data))"
  shows "create_review d new_id now user_id review_data = (Inl MultipleResultsFound, d)
       \<and> \<not> is_ValueError MultipleResultsFound"
  using assms by (simp add: create_review_def scalar_one_or_none_many)

theorem create_review_repeat_purchase_witness:
  "purchased order_db 7 1 = [item_1, item_3]
   \<and> create_review order_db 30 9 7
        \<lparr>rc_product_id = 1, rc_rating = 5, rc_title = None, rc_comment = None\<rparr>
       = (Inl MultipleResultsFound, order_db)"
proof -
  have p: "purchased order_db 7 1 = [item_1, item_3]"
    by (simp add: purchased_def order_db_def example_rows)
  have h: "filter (\<lambda>r. r_user_id r = 7 \<and> r_product_id r
        = rc_product_id \<lparr>rc_product_id = 1, rc_rating = 5, rc_title = None, rc_comment = None\<rparr>)
             (reviews order_db) = []"
    "2 \<le> length (purchased order_db 7
        (rc_product_id \<lparr>rc_product_id = 1, rc_rating = 5, rc_title = None, rc_comment = None\<rparr>))"
    by (simp_all add: purchased_def order_db_def example_rows)
  from create_review_repeat_purchase [OF h, of 30 9] p show ?thesis by simp
qed

section \<open>Properties of the category service\<close>

text \<open>
  What get_category_tree guarantees at every store: its top-level nodes are the
  active categories without parent in ascending (display_order, name), and the
  children of a node are among the active rows of category.subcategories.
\<close>

lemma those_map_Some:
  "those (map f xs) = Some ys \<Longrightarrow> list_all2 (\<lambda>x y. f x = Some y) xs ys"
proof (induction xs arbitrary: ys)
  case Nil
  then show ?case by simp
next
  case (Cons x xs)
  then show ?case
    by (cases "f x"; cases "those (map f xs)") auto
qed

lemma build_category_tree_node_fields:
  "build_category_tree_node fuel d m c = Some t \<Longrightarrow>
     ct_id t = c_id c \<and> ct_name t = c_name c \<and> ct_slug t = c_slug c
     \<and> ct_product_count t = product_count d c"
  by (cases fuel) auto

lemma get_category_tree_top_level:
  assumes "get_category_tree fuel d = Some ts"
  shows "map ct_id ts
         = map c_id (filter (\<lambda>c. c_parent_id c = None)
             (sort_key (\<lambda>c. (c_display_order c, c_name c)) (filter c_is_active (categories d))))"
    and "sorted (map (\<lambda>c. (c_display_order c, c_name c))
           (filter (\<lambda>c. c_parent_id c = None)
             (sort_key (\<lambda>c. (c_display_order c, c_name c)) (filter c_is_active (categories d)))))"
proof -
  let ?roots = "filter (\<lambda>c. c_parent_id c = None)
             (sort_key (\<lambda>c. (c_display_order c, c_name c)) (filter c_is_active (categories d)))"
  from assms obtain m where "those (map (build_category_tree_node fuel d m) ?roots) = Some ts"
    by (auto simp: get_category_tree_def Let_def)
  from those_map_Some [OF this]
  have "list_all2 (\<lambda>c t. build_category_tree_node fuel d m c = Some t) ?roots ts" .
  then have "list_all2 (\<lambda>c t. ct_id t = c_id c) ?roots ts"
    by (rule list_all2_mono) (simp add: build_category_tree_node_fields)
  then show "map ct_id ts = map c_id ?roots"
    by (induction rule: list_all2_induct) auto
  show "sorted (map (\<lambda>c. (c_display_order c, c_name c)) ?roots)"
    by (simp add: sorted_filter)
qed

lemma build_category_tree_node_children:
  assumes "build_category_tree_node fuel d m c = Some t"
    and "\<forall>k c'. m k = Some c' \<longrightarrow> c_id c' = k"
  shows "set (map ct_id (ct_subcategories t))
         \<subseteq> c_id ` {s \<in> set (subcategories d c). c_is_active s}"
proof (cases fuel)
  case 0
  with assms show ?thesis by simp
next
  case (Suc n)
  let ?kids = "List.map_filter
                (\<lambda>subcat. if m (c_id subcat) \<noteq> None \<and> c_is_active subcat
                   then m (c_id subcat) else None)
                (subcategories d c)"
  from assms(1) Suc obtain subs where
    s: "those (map (build_category_tree_node n d m) ?kids) = Some subs"
    and t: "ct_subcategories t = subs"
    by auto
  from those_map_Some [OF s]
  have "list_all2 (\<lambda>c t. ct_id t = c_id c) ?kids subs"
    by (rule list_all2_mono) (simp add: build_category_tree_node_fields)
  then have ids: "map ct_id subs = map c_id ?kids"
    by (induction rule: list_all2_induct) auto
  have "set (map c_id ?kids) \<subseteq> c_id ` {s \<in> set (subcategories d c). c_is_active s}"
    using assms(2) by (auto simp: List.map_filter_def image_iff split: if_splits)
  with ids t show ?thesis by simp
qed


lemma session_delete_category_products:
  "set (products (session_delete_category d category))
     = {p \<in> set (products d). p_category_id p \<noteq> Some (c_id category)}"
  by (auto simp: session_delete_category_def Let_def)

lemma delete_category_force:
  assumes "get_category d category_id = Inr (Some category)"
  shows "delete_category d category_id True = (Inr True, session_delete_category d category)"
  using assms by (simp add: delete_category_def commit_def)

text \<open>
  C2. At the store cat_db, where the product prod_a references the category cat_root,
  delete_category with force removes the row of prod_a (and the cart line line_a of
  that product) together with the category, instead of keeping the product with its
  category reference cleared; the child categories stay, with parent_id NULL. The
  message of delete_category without force announces that the products will be
  uncategorized.
\<close>

theorem delete_category_force_deletes_products:
  "delete_category cat_db 1 True
     = (Inr True,
        cat_db\<lparr>products := [prod_b], cart_items := [],
                 categories := [cat_b\<lparr>c_parent_id := None\<rparr>, cat_a\<lparr>c_parent_id := None\<rparr>,
                                cat_x\<lparr>c_parent_id := None\<rparr>]\<rparr>)
   \<and> p_category_id prod_a = Some (c_id cat_root)"
  by (simp add: delete_category_def get_category_def session_delete_category_def
      c_products_def commit_def cat_db_def example_rows Let_def)

text \<open>
  C6. At the store cat_db, whose table holds the child B (display_order 2) before
  the child A (display_order 1) of Root, get_category_tree returns one top-level
  node, Root, without the inactive child X, and with the children in the order of
  the table, B before A, not in ascending display_order: only the top level follows
  the ORDER BY of the query.
\<close>

theorem get_category_tree_children_unordered:
  "get_category_tree 2 cat_db
     = Some [CategoryTree 1 ''Root'' ''root'' 1
               [CategoryTree 2 ''B'' ''b'' 0 [], CategoryTree 3 ''A'' ''a'' 0 []]]
   \<and> c_display_order cat_b = 2 \<and> c_display_order cat_a = 1"
  by (simp add: get_category_tree_def subcategories_def product_count_def c_products_def
      cat_db_def example_rows Let_def List.map_filter_def numeral_2_eq_2)


section \<open>Properties of the listings\<close>










end
